theory Spec2Isabelle
  imports Complex_Main "HOL-Library.Log_Nat"
begin

section \<open>Conventions of the embedding\<close>

text \<open>
  The two classes of the repository, \<^verbatim>\<open>HandTracker\<close> (src/HandTracker.js) and
  \<^verbatim>\<open>ParticleSystem\<close> (src/ParticleSystem.js), are embedded as records with explicit
  state passing. JavaScript numbers are read as real numbers: rounding to 64-bit
  doubles and to the 32-bit elements of a \<^verbatim>\<open>Float32Array\<close> is not part of this
  model, so a numeric statement about it is a statement of exact arithmetic. The
  exact size of the easing step is stated over a second embedding of \<^verbatim>\<open>update\<close>,
  which rounds as the language does (the last section of definitions).

  A property read on \<^verbatim>\<open>undefined\<close> throws a \<^verbatim>\<open>TypeError\<close>; functions that can
  throw return a sum whose left injection is the error.
\<close>

datatype js_error = TypeError

definition ebind :: "js_error + 'a \<Rightarrow> ('a \<Rightarrow> js_error + 'b) \<Rightarrow> js_error + 'b" where
  "ebind m f = (case m of Inl e \<Rightarrow> Inl e | Inr v \<Rightarrow> f v)"

section \<open>HandTracker\<close>

text \<open>A point with the fields \<^verbatim>\<open>x\<close>, \<^verbatim>\<open>y\<close>, \<^verbatim>\<open>z\<close>: a landmark or a cursor position.\<close>

record point =
  pt_x :: real
  pt_y :: real
  pt_z :: real

text \<open>
  What \<^verbatim>\<open>onResults\<close> stores: an object whose \<^verbatim>\<open>multiHandLandmarks\<close> may be missing,
  and otherwise is an array of landmark arrays.
\<close>

record results =
  multiHandLandmarks :: "point list list option"

record hand_tracker =
  tracker_results :: "results option"
  lastPalmX :: "real option"
  swipeDirection :: "string option"
  swipeFrames :: nat

record hand_data =
  position :: point
  proximity :: real
  gesture :: string
  swipe :: string
  raw :: "point list"

text \<open>The constructor, without the camera and the perception provider.\<close>

definition HandTracker :: hand_tracker where
  "HandTracker = \<lparr>tracker_results = None, lastPalmX = None, swipeDirection = None, swipeFrames = 0\<rparr>"

definition onResults :: "results option \<Rightarrow> hand_tracker \<Rightarrow> hand_tracker" where
  "onResults r t = t\<lparr>tracker_results := r\<rparr>"

text \<open>
  \<^verbatim>\<open>landmarks[i].x\<close>: the element read is \<^verbatim>\<open>undefined\<close> beyond the end of the array, and
  reading a coordinate of it throws.
\<close>

definition lm :: "point list \<Rightarrow> nat \<Rightarrow> js_error + point" where
  "lm landmarks i = (if i < length landmarks then Inr (landmarks ! i) else Inl TypeError)"

definition distSq :: "point \<Rightarrow> point \<Rightarrow> real" where
  "distSq p1 p2 = (pt_x p1 - pt_x p2) ^ 2 + (pt_y p1 - pt_y p2) ^ 2"

definition isExtended :: "point list \<Rightarrow> nat \<Rightarrow> nat \<Rightarrow> nat \<Rightarrow> js_error + bool" where
  "isExtended landmarks tipIdx pipIdx mcpIdx =
     ebind (lm landmarks tipIdx) (\<lambda>tip.
     ebind (lm landmarks 0) (\<lambda>wrist.
     ebind (lm landmarks pipIdx) (\<lambda>pip.
       Inr (distSq tip wrist > distSq pip wrist))))"

text \<open>
  \<^verbatim>\<open>detectGesture\<close>. The helper \<^verbatim>\<open>isFingerTipsUp\<close> of the source is never called and
  is left out; \<^verbatim>\<open>thumbOpen\<close> is computed and not used, as in the source.
\<close>

definition detectGesture :: "point list \<Rightarrow> js_error + string" where
  "detectGesture landmarks =
     ebind (isExtended landmarks 4 3 2) (\<lambda>thumbOpen.
     ebind (isExtended landmarks 8 6 5) (\<lambda>indexOpen.
     ebind (isExtended landmarks 12 10 9) (\<lambda>middleOpen.
     ebind (isExtended landmarks 16 14 13) (\<lambda>ringOpen.
     ebind (isExtended landmarks 20 18 17) (\<lambda>pinkyOpen.
     let openCount = length (filter (\<lambda>b. b) [indexOpen, middleOpen, ringOpen, pinkyOpen]) in
     ebind (lm landmarks 4) (\<lambda>l4.
     ebind (lm landmarks 8) (\<lambda>l8.
     let pinchDist = sqrt (distSq l4 l8);
         isPinch = (pinchDist < 0.05)
     in Inr (if isPinch then ''pinch''
             else if openCount = 4 then ''open''
             else if openCount = 0 then ''fist''
             else ''neutral''))))))))"

text \<open>
  \<^verbatim>\<open>getData\<close> returns the hand signal, or \<^verbatim>\<open>null\<close> (here \<open>None\<close>), together with the
  tracker after the call. Every read that can throw comes before the assignment to
  \<^verbatim>\<open>lastPalmX\<close>, so a throwing call leaves the tracker as it was.
\<close>

definition getData :: "hand_tracker \<Rightarrow> js_error + (hand_data option \<times> hand_tracker)" where
  "getData t =
     (case tracker_results t of
        None \<Rightarrow> Inr (None, t\<lparr>lastPalmX := None\<rparr>)
      | Some r \<Rightarrow>
         (case multiHandLandmarks r of
            None \<Rightarrow> Inr (None, t\<lparr>lastPalmX := None\<rparr>)
          | Some [] \<Rightarrow> Inr (None, t\<lparr>lastPalmX := None\<rparr>)
          | Some (landmarks # _) \<Rightarrow>
             ebind (lm landmarks 8) (\<lambda>indexTip.
             let x = (pt_x indexTip - 0.5) * 2;
                 y = (0.5 - pt_y indexTip) * 2
             in
             ebind (lm landmarks 0) (\<lambda>wrist.
             ebind (lm landmarks 9) (\<lambda>middleMcp.
             let dx = pt_x wrist - pt_x middleMcp;
                 dy = pt_y wrist - pt_y middleMcp;
                 palmSize = sqrt (dx * dx + dy * dy);
                 proximity = min (max ((palmSize - 0.1) * 3.0) 0) 1
             in
             ebind (detectGesture landmarks) (\<lambda>gesture.
             let palmX = pt_x middleMcp;
                 swipe =
                   (case lastPalmX t of
                      None \<Rightarrow> ''none''
                    | Some l \<Rightarrow>
                       (let diff = palmX - l in
                        if \<bar>diff\<bar> > 0.03
                        then (if diff > 0 then ''left'' else ''right'')
                        else ''none''))
             in Inr (Some \<lparr>position = \<lparr>pt_x = x, pt_y = y, pt_z = 0\<rparr>,
                            proximity = proximity,
                            gesture = gesture,
                            swipe = swipe,
                            raw = landmarks\<rparr>,
                     t\<lparr>lastPalmX := Some palmX\<rparr>)))))))"

text \<open>
  The source's test for "no hand": \<^verbatim>\<open>!this.results || !this.results.multiHandLandmarks ||
  this.results.multiHandLandmarks.length === 0\<close>.
\<close>

definition no_hand :: "results option \<Rightarrow> bool" where
  "no_hand r =
     (case r of
        None \<Rightarrow> True
      | Some r' \<Rightarrow> (case multiHandLandmarks r' of None \<Rightarrow> True | Some ls \<Rightarrow> length ls = 0))"

text \<open>A frame with a hand: the first landmark array is the one \<^verbatim>\<open>getData\<close> reads.\<close>

definition hand_present :: "point list \<Rightarrow> point list list \<Rightarrow> results option" where
  "hand_present landmarks others = Some \<lparr>multiHandLandmarks = Some (landmarks # others)\<rparr>"

subsection \<open>The classifier as the specification words it\<close>

text \<open>
  The specification's planar Euclidean distance, and its \<open>extended(tip, pip)\<close>: the
  squared planar distance from the tip to the wrist (landmark 0) exceeds that from the
  PIP joint to the wrist.
\<close>

definition planar_distance :: "point \<Rightarrow> point \<Rightarrow> real" where
  "planar_distance p q = sqrt ((pt_x p - pt_x q)\<^sup>2 + (pt_y p - pt_y q)\<^sup>2)"

definition extended :: "point list \<Rightarrow> nat \<Rightarrow> nat \<Rightarrow> bool" where
  "extended landmarks tip pip =
     ((planar_distance (landmarks ! tip) (landmarks ! 0))\<^sup>2 >
      (planar_distance (landmarks ! pip) (landmarks ! 0))\<^sup>2)"

section \<open>ParticleSystem\<close>

subsection \<open>Numbers read from buffers\<close>

text \<open>
  An element read beyond the end of a typed array is \<^verbatim>\<open>undefined\<close>, which every
  arithmetic operator turns into \<^verbatim>\<open>NaN\<close> and every comparison into \<^verbatim>\<open>false\<close>; a
  write beyond the end is ignored. Buffer elements are therefore numbers or \<open>NaN\<close>.
\<close>

datatype jsnum = NaN | Num real

fun jadd :: "jsnum \<Rightarrow> jsnum \<Rightarrow> jsnum" where
  "jadd (Num a) (Num b) = Num (a + b)"
| "jadd _ _ = NaN"

fun jsub :: "jsnum \<Rightarrow> jsnum \<Rightarrow> jsnum" where
  "jsub (Num a) (Num b) = Num (a - b)"
| "jsub _ _ = NaN"

fun jmul :: "jsnum \<Rightarrow> jsnum \<Rightarrow> jsnum" where
  "jmul (Num a) (Num b) = Num (a * b)"
| "jmul _ _ = NaN"

fun jsin :: "jsnum \<Rightarrow> jsnum" where
  "jsin (Num a) = Num (sin a)"
| "jsin NaN = NaN"

fun jsqrt :: "jsnum \<Rightarrow> jsnum" where
  "jsqrt (Num a) = (if a < 0 then NaN else Num (sqrt a))"
| "jsqrt NaN = NaN"

fun jlt :: "jsnum \<Rightarrow> jsnum \<Rightarrow> bool" where
  "jlt (Num a) (Num b) = (a < b)"
| "jlt _ _ = False"

fun jgt :: "jsnum \<Rightarrow> jsnum \<Rightarrow> bool" where
  "jgt (Num a) (Num b) = (a > b)"
| "jgt _ _ = False"

definition rd :: "jsnum list \<Rightarrow> nat \<Rightarrow> jsnum" where
  "rd xs i = (if i < length xs then xs ! i else NaN)"

text \<open>\<^verbatim>\<open>new Float32Array(n)\<close>: \<open>n\<close> zeros.\<close>

definition Float32Array :: "nat \<Rightarrow> jsnum list" where
  "Float32Array n = replicate n (Num 0)"

subsection \<open>Template generation\<close>

text \<open>
  \<^verbatim>\<open>Math.random()\<close> is a stream \<open>rnd\<close> of values read through a counter: the \<open>k\<close>-th
  call returns \<open>rnd k\<close>. The library function yields values in \<open>[0, 1)\<close>, on which
  \<^verbatim>\<open>Math.acos(2u - 1)\<close> is \<open>arccos\<close>. Each loop is a fold over its index range, whose
  state is the buffers written and the counter.
\<close>

definition initParticles_body ::
  "(nat \<Rightarrow> real) \<Rightarrow> nat \<Rightarrow> jsnum list \<times> jsnum list \<times> jsnum list \<times> nat
     \<Rightarrow> jsnum list \<times> jsnum list \<times> jsnum list \<times> nat" where
  "initParticles_body rnd i st =
     (case st of (positions, scales, colors, k) \<Rightarrow>
        let i3 = i * 3;
            positions = positions[i3 := Num ((rnd k - 0.5) * 10)];
            positions = positions[i3 + 1 := Num ((rnd (k + 1) - 0.5) * 10)];
            positions = positions[i3 + 2 := Num ((rnd (k + 2) - 0.5) * 10)];
            scales = scales[i := Num (rnd (k + 3))];
            colors = colors[i3 := Num (0.2 + rnd (k + 4) * 0.3)];
            colors = colors[i3 + 1 := Num (0.4 + rnd (k + 5) * 0.4)];
            colors = colors[i3 + 2 := Num (0.8 + rnd (k + 6) * 0.2)]
        in (positions, scales, colors, k + 7))"

definition initParticles ::
  "(nat \<Rightarrow> real) \<Rightarrow> nat \<Rightarrow> nat \<Rightarrow> jsnum list \<times> jsnum list \<times> jsnum list \<times> nat" where
  "initParticles rnd n k =
     fold (initParticles_body rnd) [0..<n]
       (Float32Array (n * 3), Float32Array n, Float32Array (n * 3), k)"

definition random_body :: "(nat \<Rightarrow> real) \<Rightarrow> nat \<Rightarrow> jsnum list \<times> nat \<Rightarrow> jsnum list \<times> nat" where
  "random_body rnd i st =
     (case st of (random, k) \<Rightarrow> (random[i := Num ((rnd k - 0.5) * 12)], k + 1))"

text \<open>
  The loop body shared by the sphere template (\<open>r = 4\<close>) and the spherical part of the
  saturn template (\<open>r = 2.5\<close>).
\<close>

definition sphere_body ::
  "real \<Rightarrow> (nat \<Rightarrow> real) \<Rightarrow> nat \<Rightarrow> jsnum list \<times> nat \<Rightarrow> jsnum list \<times> nat" where
  "sphere_body r rnd i st =
     (case st of (sphere, k) \<Rightarrow>
        let i3 = i * 3;
            theta = rnd k * pi * 2;
            phi = arccos ((rnd (k + 1) * 2) - 1);
            sphere = sphere[i3 := Num (r * sin phi * cos theta)];
            sphere = sphere[i3 + 1 := Num (r * sin phi * sin theta)];
            sphere = sphere[i3 + 2 := Num (r * cos phi)]
        in (sphere, k + 2))"

definition cube_body :: "(nat \<Rightarrow> real) \<Rightarrow> nat \<Rightarrow> jsnum list \<times> nat \<Rightarrow> jsnum list \<times> nat" where
  "cube_body rnd i st =
     (case st of (cube, k) \<Rightarrow>
        let i3 = i * 3;
            s = 5;
            cube = cube[i3 := Num ((rnd k - 0.5) * s)];
            cube = cube[i3 + 1 := Num ((rnd (k + 1) - 0.5) * s)];
            cube = cube[i3 + 2 := Num ((rnd (k + 2) - 0.5) * s)]
        in (cube, k + 3))"

definition ring_body :: "(nat \<Rightarrow> real) \<Rightarrow> nat \<Rightarrow> jsnum list \<times> nat \<Rightarrow> jsnum list \<times> nat" where
  "ring_body rnd i st =
     (case st of (saturn, k) \<Rightarrow>
        let i3 = i * 3;
            theta = rnd k * pi * 2;
            r = 3.5 + rnd (k + 1) * 4;
            x = r * cos theta;
            y = (rnd (k + 2) - 0.5) * 0.2;
            z = r * sin theta;
            tilt = 0.4;
            tx = x;
            x = tx * cos tilt - y * sin tilt;
            y = tx * sin tilt + y * cos tilt;
            saturn = saturn[i3 := Num x];
            saturn = saturn[i3 + 1 := Num y];
            saturn = saturn[i3 + 2 := Num z]
        in (saturn, k + 3))"

definition sphereCount :: "nat \<Rightarrow> nat" where
  "sphereCount n = nat \<lfloor>real n * 0.4\<rfloor>"

text \<open>
  \<^verbatim>\<open>generateTemplates\<close> returns the four buffers in the order the source builds them
  (random, sphere, cube, saturn) and the counter after the last draw.
\<close>

definition generateTemplates ::
  "(nat \<Rightarrow> real) \<Rightarrow> nat \<Rightarrow> nat \<Rightarrow> (jsnum list \<times> jsnum list \<times> jsnum list \<times> jsnum list) \<times> nat" where
  "generateTemplates rnd n k =
     (case fold (random_body rnd) [0..<n * 3] (Float32Array (n * 3), k) of (random, k1) \<Rightarrow>
      case fold (sphere_body 4 rnd) [0..<n] (Float32Array (n * 3), k1) of (sphere, k2) \<Rightarrow>
      case fold (cube_body rnd) [0..<n] (Float32Array (n * 3), k2) of (cube, k3) \<Rightarrow>
      case fold (sphere_body 2.5 rnd) [0..<sphereCount n] (Float32Array (n * 3), k3) of (saturn, k4) \<Rightarrow>
      case fold (ring_body rnd) [sphereCount n..<n] (saturn, k4) of (saturn, k5) \<Rightarrow>
        ((random, sphere, cube, saturn), k5))"

text \<open>
  The distance from the origin of point \<open>i\<close> of a coordinate buffer.
\<close>

definition origin_distance :: "jsnum list \<Rightarrow> nat \<Rightarrow> jsnum" where
  "origin_distance buf i =
     (let x = rd buf (i * 3); y = rd buf (i * 3 + 1); z = rd buf (i * 3 + 2)
      in jsqrt (jadd (jadd (jmul x x) (jmul y y)) (jmul z z)))"

subsection \<open>The engine's state\<close>

text \<open>
  \<^verbatim>\<open>this.templates\<close> is a plain object: its own properties are the four buffers, and a
  lookup of any other name falls through to \<^verbatim>\<open>Object.prototype\<close>, whose members
  (functions, and the prototype itself under \<^verbatim>\<open>__proto__\<close>) are truthy and have no
  numeric elements.
\<close>

definition object_prototype_keys :: "string list" where
  "object_prototype_keys =
     [''constructor'', ''hasOwnProperty'', ''isPrototypeOf'', ''propertyIsEnumerable'',
      ''toLocaleString'', ''toString'', ''valueOf'', ''__proto__'',
      ''__defineGetter__'', ''__defineSetter__'', ''__lookupGetter__'', ''__lookupSetter__'']"

datatype jsval = Buffer "jsnum list" | Inherited

definition templates_at :: "(string \<rightharpoonup> jsnum list) \<Rightarrow> string \<Rightarrow> jsval option" where
  "templates_at ts name =
     (case ts name of
        Some buf \<Rightarrow> Some (Buffer buf)
      | None \<Rightarrow> if name \<in> set object_prototype_keys then Some Inherited else None)"

text \<open>\<^verbatim>\<open>targetPositions[j]\<close> for a value found under \<^verbatim>\<open>this.templates\<close>.\<close>

fun tget :: "jsval \<Rightarrow> nat \<Rightarrow> jsnum" where
  "tget (Buffer buf) j = rd buf j"
| "tget Inherited j = NaN"

text \<open>
  The fields of a \<^verbatim>\<open>ParticleSystem\<close> that its methods read or write. The attributes
  \<^verbatim>\<open>position\<close>, \<^verbatim>\<open>aScale\<close>, \<^verbatim>\<open>aColor\<close>, \<^verbatim>\<open>aTarget\<close> of the geometry are the four
  buffers; \<^verbatim>\<open>uTime\<close> and \<^verbatim>\<open>uGlow\<close> are the material's uniforms. The constructor never
  assigns \<^verbatim>\<open>attracted\<close>, which is \<^verbatim>\<open>undefined\<close> (here \<open>None\<close>) until a setter runs.
  \<open>pendingTimeouts\<close> counts the callbacks that \<^verbatim>\<open>triggerWave\<close> has scheduled with
  \<^verbatim>\<open>setTimeout\<close> and that have not run yet.
\<close>

record particle_system =
  count :: nat
  uTime :: real
  uGlow :: real
  positions :: "jsnum list"
  aScale :: "jsnum list"
  aColor :: "jsnum list"
  aTarget :: "jsnum list"
  positionNeedsUpdate :: bool
  aColorNeedsUpdate :: bool
  templates :: "string \<rightharpoonup> jsnum list"
  currentTarget :: string
  wavePhase :: real
  isWaving :: bool
  expanded :: bool
  attracted :: "bool option"
  pendingTimeouts :: nat

definition truthy :: "bool option \<Rightarrow> bool" where
  "truthy b = (b = Some True)"

definition ParticleSystem :: "(nat \<Rightarrow> real) \<Rightarrow> nat \<Rightarrow> particle_system" where
  "ParticleSystem rnd n =
     (case initParticles rnd n 0 of (pos, scales, colors, k) \<Rightarrow>
      case generateTemplates rnd n k of ((random, sphere, cube, saturn), k') \<Rightarrow>
        \<lparr>count = n, uTime = 0, uGlow = 0.0,
         positions = pos, aScale = scales, aColor = colors, aTarget = random,
         positionNeedsUpdate = False, aColorNeedsUpdate = False,
         templates = [''random'' \<mapsto> random, ''sphere'' \<mapsto> sphere,
                      ''cube'' \<mapsto> cube, ''saturn'' \<mapsto> saturn],
         currentTarget = ''random'',
         wavePhase = 0, isWaving = False, expanded = False, attracted = None,
         pendingTimeouts = 0\<rparr>)"

subsection \<open>The control surface\<close>

definition setTarget :: "string \<Rightarrow> particle_system \<Rightarrow> particle_system" where
  "setTarget templateName s =
     (case templates_at (templates s) templateName of
        Some v \<Rightarrow> s\<lparr>currentTarget := templateName, expanded := False, attracted := Some False\<rparr>
      | None \<Rightarrow> s)"

definition triggerWave :: "particle_system \<Rightarrow> particle_system" where
  "triggerWave s = s\<lparr>isWaving := True, wavePhase := 0, pendingTimeouts := pendingTimeouts s + 1\<rparr>"

text \<open>The callback that \<^verbatim>\<open>triggerWave\<close> schedules; it can run while one is pending.\<close>

definition waveTimeout :: "particle_system \<Rightarrow> particle_system" where
  "waveTimeout s =
     (if 0 < pendingTimeouts s
      then s\<lparr>isWaving := False, pendingTimeouts := pendingTimeouts s - 1\<rparr>
      else s)"

definition setExpanded :: "bool \<Rightarrow> particle_system \<Rightarrow> particle_system" where
  "setExpanded state s =
     (let s = s\<lparr>expanded := state\<rparr>
      in if state then s\<lparr>attracted := Some False\<rparr> else s)"

definition setAttract :: "bool \<Rightarrow> particle_system \<Rightarrow> particle_system" where
  "setAttract state s =
     (let s = s\<lparr>attracted := Some state\<rparr>
      in if state then s\<lparr>expanded := False\<rparr> else s)"

subsection \<open>The per-frame step\<close>

text \<open>
  The body of the particle loop of \<^verbatim>\<open>update\<close>, in three parts. First the target of
  particle \<open>i\<close>: the template point, doubled when \<^verbatim>\<open>expanded\<close>, with the wave added to its
  second coordinate when \<^verbatim>\<open>isWaving\<close>, and replaced by a point near \<open>attractPos\<close> when
  \<^verbatim>\<open>attracted\<close>.
\<close>

definition particle_target ::
  "jsval \<Rightarrow> point \<Rightarrow> nat \<Rightarrow> particle_system \<Rightarrow> jsnum \<times> jsnum \<times> jsnum" where
  "particle_target targetPositions attractPos i s =
     (let i3 = i * 3;
          tx = tget targetPositions i3;
          ty = tget targetPositions (i3 + 1);
          tz = tget targetPositions (i3 + 2);
          (tx, ty, tz) =
            (if expanded s
             then (jmul tx (Num 2.0), jmul ty (Num 2.0), jmul tz (Num 2.0))
             else (tx, ty, tz));
          ty =
            (if isWaving s
             then (let waveY = jmul (jsin (jadd (jmul tx (Num 0.5)) (Num (wavePhase s)))) (Num 2.0)
                   in jadd ty waveY)
             else ty)
      in if truthy (attracted s)
         then (jadd (Num (pt_x attractPos)) (jmul tx (Num 0.1)),
               jadd (Num (pt_y attractPos)) (jmul ty (Num 0.1)),
               jadd (Num (pt_z attractPos)) (jmul tz (Num 0.1)))
         else (tx, ty, tz))"

text \<open>
  Then the step towards the target: \<^verbatim>\<open>positions[i3] += (tx - cx) * ease\<close>, per axis.
  Here the sum is stored as the real number it is; \<open>particle_lerp_f\<close> below stores its
  32-bit rounding, as the \<^verbatim>\<open>Float32Array\<close> does.
\<close>

definition particle_lerp :: "jsnum \<times> jsnum \<times> jsnum \<Rightarrow> nat \<Rightarrow> particle_system \<Rightarrow> particle_system" where
  "particle_lerp t i s =
     (case t of (tx, ty, tz) \<Rightarrow>
        let i3 = i * 3;
            ease = Num 0.05;
            cx = rd (positions s) i3;
            cy = rd (positions s) (i3 + 1);
            cz = rd (positions s) (i3 + 2);
            s = s\<lparr>positions := (positions s)[i3 := jadd (rd (positions s) i3) (jmul (jsub tx cx) ease)]\<rparr>;
            s = s\<lparr>positions :=
                   (positions s)[i3 + 1 := jadd (rd (positions s) (i3 + 1)) (jmul (jsub ty cy) ease)]\<rparr>;
            s = s\<lparr>positions :=
                   (positions s)[i3 + 2 := jadd (rd (positions s) (i3 + 2)) (jmul (jsub tz cz) ease)]\<rparr>
        in s)"

text \<open>
  Last the interaction with the cursor: inside the radius of influence the particle is
  pushed and its red channel set; the decay of the red channel is the \<^verbatim>\<open>else\<close> branch
  of the radius test, inside the test \<^verbatim>\<open>repelPos && !this.attracted\<close>.
\<close>

definition particle_repel :: "point option \<Rightarrow> nat \<Rightarrow> particle_system \<Rightarrow> particle_system" where
  "particle_repel repelPos i s =
     (case repelPos of
        None \<Rightarrow> s
      | Some rp \<Rightarrow>
         if \<not> truthy (attracted s) then
           (let i3 = i * 3;
                dx = jsub (rd (positions s) i3) (Num (pt_x rp));
                dy = jsub (rd (positions s) (i3 + 1)) (Num (pt_y rp));
                dz = jsub (rd (positions s) (i3 + 2)) (Num (pt_z rp));
                distSq = jadd (jadd (jmul dx dx) (jmul dy dy)) (jmul dz dz)
            in if jlt distSq (Num 4.0) then
                 (let dist = jsqrt distSq;
                      force = jmul (jsub (Num 2.0) dist) (Num 0.15);
                      s = s\<lparr>positions := (positions s)[i3 := jadd (rd (positions s) i3) (jmul dx force)]\<rparr>;
                      s = s\<lparr>positions :=
                             (positions s)[i3 + 1 := jadd (rd (positions s) (i3 + 1)) (jmul dy force)]\<rparr>;
                      s = s\<lparr>positions :=
                             (positions s)[i3 + 2 := jadd (rd (positions s) (i3 + 2)) (jmul dz force)]\<rparr>
                  in s\<lparr>aColor := (aColor s)[i3 := Num 1.0]\<rparr>)
               else if jgt (rd (aColor s) i3) (Num 0.5)
                 then s\<lparr>aColor := (aColor s)[i3 := jsub (rd (aColor s) i3) (Num 0.02)]\<rparr>
                 else s)
         else s)"

definition particle_body ::
  "jsval \<Rightarrow> point option \<Rightarrow> point \<Rightarrow> nat \<Rightarrow> particle_system \<Rightarrow> particle_system" where
  "particle_body targetPositions repelPos attractPos i s =
     particle_repel repelPos i (particle_lerp (particle_target targetPositions attractPos i s) i s)"

text \<open>
  \<^verbatim>\<open>update\<close>. A hand signal always carries a position object, so \<^verbatim>\<open>handData &&
  handData.position\<close> holds exactly when a signal is given; \<^verbatim>\<open>handData.proximity\<close> is
  truthy when it is not zero. Indexing \<^verbatim>\<open>targetPositions\<close> throws when it is
  \<^verbatim>\<open>undefined\<close>, which the first iteration of the loop would do.
\<close>

definition update :: "real \<Rightarrow> hand_data option \<Rightarrow> particle_system \<Rightarrow> js_error + particle_system" where
  "update time handData s =
     (let s = s\<lparr>uTime := time\<rparr>;
          targetGlow = (case handData of
                          None \<Rightarrow> 0
                        | Some h \<Rightarrow> if proximity h \<noteq> 0 then proximity h else 0);
          s = s\<lparr>uGlow := uGlow s + (targetGlow - uGlow s) * 0.1\<rparr>;
          targetPositions = templates_at (templates s) (currentTarget s);
          repelPos = map_option position handData;
          attractPos = (case handData of
                          None \<Rightarrow> \<lparr>pt_x = 0, pt_y = 0, pt_z = 0\<rparr>
                        | Some h \<Rightarrow> position h);
          s = (if isWaving s then s\<lparr>wavePhase := wavePhase s + 0.1\<rparr> else s)
      in case targetPositions of
           None \<Rightarrow>
             if count s = 0
             then Inr (s\<lparr>positionNeedsUpdate := True, aColorNeedsUpdate := True\<rparr>)
             else Inl TypeError
         | Some tp \<Rightarrow>
             Inr ((fold (particle_body tp repelPos attractPos) [0..<count s] s)
                    \<lparr>positionNeedsUpdate := True, aColorNeedsUpdate := True\<rparr>))"

subsection \<open>Sequences of calls\<close>

datatype call =
    SetTarget string
  | SetExpanded bool
  | SetAttract bool
  | TriggerWave
  | WaveTimeout
  | Update real "hand_data option"

fun do_call :: "call \<Rightarrow> particle_system \<Rightarrow> js_error + particle_system" where
  "do_call (SetTarget name) s = Inr (setTarget name s)"
| "do_call (SetExpanded state) s = Inr (setExpanded state s)"
| "do_call (SetAttract state) s = Inr (setAttract state s)"
| "do_call TriggerWave s = Inr (triggerWave s)"
| "do_call WaveTimeout s = Inr (waveTimeout s)"
| "do_call (Update time handData) s = update time handData s"

fun run :: "call list \<Rightarrow> particle_system \<Rightarrow> js_error + particle_system" where
  "run [] s = Inr s"
| "run (c # cs) s = ebind (do_call c s) (run cs)"

text \<open>A concrete hand: the wrist and every joint at the origin, the five tips away from it.\<close>

definition open_hand :: "point list" where
  "open_hand = (replicate 21 \<lparr>pt_x = 0, pt_y = 0, pt_z = 0\<rparr>)
     [4 := \<lparr>pt_x = 0, pt_y = 2, pt_z = 0\<rparr>,
      8 := \<lparr>pt_x = 0, pt_y = 1, pt_z = 0\<rparr>,
      12 := \<lparr>pt_x = 0, pt_y = 1, pt_z = 0\<rparr>,
      16 := \<lparr>pt_x = 0, pt_y = 1, pt_z = 0\<rparr>,
      20 := \<lparr>pt_x = 0, pt_y = 1, pt_z = 0\<rparr>]"

subsection \<open>Names for parts of \<open>update\<close>\<close>

text \<open>
  The value \<^verbatim>\<open>targetGlow\<close> of a call, the cursor \<^verbatim>\<open>attractPos\<close>, and the engine as it is
  when the particle loop starts: time and glow stored, the wave phase advanced.
\<close>

definition glow_target :: "hand_data option \<Rightarrow> real" where
  "glow_target h = (case h of None \<Rightarrow> 0 | Some d \<Rightarrow> proximity d)"

definition attract_pos :: "hand_data option \<Rightarrow> point" where
  "attract_pos h = (case h of None \<Rightarrow> \<lparr>pt_x = 0, pt_y = 0, pt_z = 0\<rparr> | Some d \<Rightarrow> position d)"

definition before_loop :: "real \<Rightarrow> hand_data option \<Rightarrow> particle_system \<Rightarrow> particle_system" where
  "before_loop time h s =
     s\<lparr>uTime := time,
       uGlow := uGlow s + (glow_target h - uGlow s) * 0.1,
       wavePhase := (if isWaving s then wavePhase s + 0.1 else wavePhase s)\<rparr>"

subsection \<open>One particle, as values\<close>

text \<open>
  The step \<^verbatim>\<open>c += (t - c) * ease\<close> on one coordinate; the position of particle \<open>i\<close>
  after the three such steps of the loop body; its squared distance to the cursor, as
  the body computes it from that position; and the factor \<^verbatim>\<open>force\<close>.
\<close>

definition ease_step :: "jsnum \<Rightarrow> jsnum \<Rightarrow> jsnum" where
  "ease_step c t = jadd c (jmul (jsub t c) (Num 0.05))"

definition integrated :: "jsval \<Rightarrow> point \<Rightarrow> nat \<Rightarrow> particle_system \<Rightarrow> jsnum \<times> jsnum \<times> jsnum" where
  "integrated targetPositions attractPos i s =
     (case particle_target targetPositions attractPos i s of
        (tx, ty, tz) \<Rightarrow>
          (ease_step (rd (positions s) (i * 3)) tx,
           ease_step (rd (positions s) (i * 3 + 1)) ty,
           ease_step (rd (positions s) (i * 3 + 2)) tz))"

definition cursor_distSq :: "point \<Rightarrow> jsnum \<times> jsnum \<times> jsnum \<Rightarrow> jsnum" where
  "cursor_distSq rp p =
     (case p of
        (px, py, pz) \<Rightarrow>
          (let dx = jsub px (Num (pt_x rp));
               dy = jsub py (Num (pt_y rp));
               dz = jsub pz (Num (pt_z rp))
           in jadd (jadd (jmul dx dx) (jmul dy dy)) (jmul dz dz)))"

definition repel_force :: "jsnum \<Rightarrow> jsnum" where
  "repel_force dsq = jmul (jsub (Num 2.0) (jsqrt dsq)) (Num 0.15)"

text \<open>
  Two engines agree on particle \<open>i\<close> when the loop body for \<open>i\<close> cannot tell them apart:
  the same flags and wave phase, buffers of the same lengths, the same position and the
  same red channel of particle \<open>i\<close>.
\<close>

definition agree_on :: "nat \<Rightarrow> particle_system \<Rightarrow> particle_system \<Rightarrow> bool" where
  "agree_on i s s' =
     (expanded s' = expanded s \<and> isWaving s' = isWaving s \<and> wavePhase s' = wavePhase s \<and>
      attracted s' = attracted s \<and>
      length (positions s') = length (positions s) \<and> length (aColor s') = length (aColor s) \<and>
      rd (positions s') (i * 3) = rd (positions s) (i * 3) \<and>
      rd (positions s') (i * 3 + 1) = rd (positions s) (i * 3 + 1) \<and>
      rd (positions s') (i * 3 + 2) = rd (positions s) (i * 3 + 2) \<and>
      rd (aColor s') (i * 3) = rd (aColor s) (i * 3))"

text \<open>
  The cursor part of the loop body as values: where a particle that the easing has
  brought to \<open>p\<close> ends up, and what its red channel becomes, given the cursor (if any)
  and the truth value of \<^verbatim>\<open>this.attracted\<close>.
\<close>

definition moved :: "point option \<Rightarrow> bool \<Rightarrow> jsnum \<times> jsnum \<times> jsnum \<Rightarrow> jsnum \<times> jsnum \<times> jsnum" where
  "moved repelPos attr p =
     (case repelPos of
        None \<Rightarrow> p
      | Some rp \<Rightarrow>
          if \<not> attr \<and> jlt (cursor_distSq rp p) (Num 4.0)
          then (let force = repel_force (cursor_distSq rp p)
                in (jadd (fst p) (jmul (jsub (fst p) (Num (pt_x rp))) force),
                    jadd (fst (snd p)) (jmul (jsub (fst (snd p)) (Num (pt_y rp))) force),
                    jadd (snd (snd p)) (jmul (jsub (snd (snd p)) (Num (pt_z rp))) force)))
          else p)"

definition red_after :: "point option \<Rightarrow> bool \<Rightarrow> jsnum \<times> jsnum \<times> jsnum \<Rightarrow> jsnum \<Rightarrow> jsnum" where
  "red_after repelPos attr p red =
     (case repelPos of
        None \<Rightarrow> red
      | Some rp \<Rightarrow>
          if attr then red
          else if jlt (cursor_distSq rp p) (Num 4.0) then Num 1.0
          else if jgt red (Num 0.5) then jsub red (Num 0.02)
          else red)"

subsection \<open>A concrete engine\<close>

text \<open>
  One particle, constructed with every call of \<^verbatim>\<open>Math.random()\<close> returning 0.5: the
  particle and its \<open>random\<close> template point are at the origin. A hand signal whose
  cursor is at \<open>(x, 0, 0)\<close>.
\<close>

definition demo_engine :: particle_system where
  "demo_engine = ParticleSystem (\<lambda>k. 0.5) 1"

definition cursor_at :: "real \<Rightarrow> hand_data" where
  "cursor_at x =
     \<lparr>position = \<lparr>pt_x = x, pt_y = 0, pt_z = 0\<rparr>, proximity = 0.5,
      gesture = ''neutral'', swipe = ''none'', raw = open_hand\<rparr>"


section \<open>The per-frame step in IEEE 754 arithmetic\<close>

text \<open>
  How far one easing step moves a particle depends on how numbers are rounded. This
  section embeds \<^verbatim>\<open>update\<close> a second time, with the arithmetic of the language instead
  of real arithmetic: every number is a 64-bit binary floating-point value, every
  operation rounds its exact result to the nearest such value (ties to even), and a
  store into a \<^verbatim>\<open>Float32Array\<close> rounds the stored value to the nearest 32-bit value.
  The two zeros are identified: \<^verbatim>\<open>update\<close> does not divide, and nothing else in it
  tells them apart.
\<close>

datatype ieee = Finite real | Infinity bool | QNaN

text \<open>
  The exponent of a real \<open>x\<close> other than 0, the integer \<open>e\<close> with
  \<open>2 ^ e \<le> \<bar>x\<bar> < 2 ^ (e + 1)\<close>: one less than the number of bits of the integer part
  of \<open>\<bar>x\<bar>\<close> when that is not 0, and otherwise found in the same way from \<open>1 / \<bar>x\<bar>\<close>.
\<close>

definition exponent :: "real \<Rightarrow> int" where
  "exponent x =
     (if 1 \<le> \<bar>x\<bar> then bitlen \<lfloor>\<bar>x\<bar>\<rfloor> - 1 else - bitlen (\<lceil>1 / \<bar>x\<bar>\<rceil> - 1))"

text \<open>
  Rounding to the nearest integer, ties to even; and rounding a real to the format with
  \<open>p\<close> significant bits and exponents from \<open>emin\<close> to \<open>emax\<close>. The spacing \<open>u\<close> of the
  format near \<open>x\<close> comes from the exponent of \<open>x\<close>, held at \<open>emin\<close> in the subnormal
  range; a result of magnitude \<open>2 ^ (emax + 1)\<close> or more overflows to an infinity
  (\<open>Infinity True\<close> is the positive one).
\<close>

definition round_even :: "real \<Rightarrow> int" where
  "round_even x =
     (let f = \<lfloor>x\<rfloor>
      in if x - of_int f < 1 / 2 then f
         else if x - of_int f > 1 / 2 then f + 1
         else if even f then f else f + 1)"

definition round_to :: "nat \<Rightarrow> int \<Rightarrow> int \<Rightarrow> real \<Rightarrow> ieee" where
  "round_to p emin emax x =
     (if x = 0 then Finite 0
      else
        (let e = max (exponent x) emin;
             u = power_int 2 (e - (int p - 1));
             y = of_int (round_even (x / u)) * u
         in if \<bar>y\<bar> \<ge> power_int 2 (emax + 1) then Infinity (0 < x) else Finite y))"

text \<open>
  The double nearest to a real: the value of a numeric literal, and the result of an
  operation whose exact result is that real. \<^verbatim>\<open>Math.fround\<close>: the 32-bit value nearest
  to a real.
\<close>

definition dbl :: "real \<Rightarrow> ieee" where
  "dbl = round_to 53 (- 1022) 1023"

definition fround :: "real \<Rightarrow> ieee" where
  "fround = round_to 24 (- 126) 127"

fun ineg :: "ieee \<Rightarrow> ieee" where
  "ineg (Finite a) = Finite (- a)"
| "ineg (Infinity pos) = Infinity (\<not> pos)"
| "ineg QNaN = QNaN"

fun iadd :: "ieee \<Rightarrow> ieee \<Rightarrow> ieee" where
  "iadd (Finite a) (Finite b) = dbl (a + b)"
| "iadd (Finite a) (Infinity q) = Infinity q"
| "iadd (Infinity p) (Finite b) = Infinity p"
| "iadd (Infinity p) (Infinity q) = (if p = q then Infinity p else QNaN)"
| "iadd QNaN y = QNaN"
| "iadd x QNaN = QNaN"

definition isub :: "ieee \<Rightarrow> ieee \<Rightarrow> ieee" where
  "isub x y = iadd x (ineg y)"

fun imul :: "ieee \<Rightarrow> ieee \<Rightarrow> ieee" where
  "imul (Finite a) (Finite b) = dbl (a * b)"
| "imul (Finite a) (Infinity q) = (if a = 0 then QNaN else Infinity ((0 < a) = q))"
| "imul (Infinity p) (Finite b) = (if b = 0 then QNaN else Infinity ((0 < b) = p))"
| "imul (Infinity p) (Infinity q) = Infinity (p = q)"
| "imul QNaN y = QNaN"
| "imul x QNaN = QNaN"

fun ilt :: "ieee \<Rightarrow> ieee \<Rightarrow> bool" where
  "ilt (Finite a) (Finite b) = (a < b)"
| "ilt (Finite a) (Infinity q) = q"
| "ilt (Infinity p) (Finite b) = (\<not> p)"
| "ilt (Infinity p) (Infinity q) = (\<not> p \<and> q)"
| "ilt QNaN y = False"
| "ilt x QNaN = False"

definition igt :: "ieee \<Rightarrow> ieee \<Rightarrow> bool" where
  "igt x y = ilt y x"

text \<open>A number in a condition: zero and \<^verbatim>\<open>NaN\<close> are falsy.\<close>

fun truthy_f :: "ieee \<Rightarrow> bool" where
  "truthy_f (Finite a) = (a \<noteq> 0)"
| "truthy_f (Infinity p) = True"
| "truthy_f QNaN = False"

text \<open>
  \<^verbatim>\<open>Math.sin\<close> and \<^verbatim>\<open>Math.sqrt\<close> at a finite argument are left to the implementation, and
  are parameters here; their values at the other arguments are fixed by the language.
\<close>

record math_object =
  Math_sin :: "real \<Rightarrow> ieee"
  Math_sqrt :: "real \<Rightarrow> ieee"

fun isin :: "math_object \<Rightarrow> ieee \<Rightarrow> ieee" where
  "isin m (Finite a) = Math_sin m a"
| "isin m (Infinity p) = QNaN"
| "isin m QNaN = QNaN"

fun isqrt :: "math_object \<Rightarrow> ieee \<Rightarrow> ieee" where
  "isqrt m (Finite a) = (if a < 0 then QNaN else Math_sqrt m a)"
| "isqrt m (Infinity p) = (if p then Infinity True else QNaN)"
| "isqrt m QNaN = QNaN"

text \<open>An implementation whose sine and square root are correctly rounded.\<close>

definition Math :: math_object where
  "Math = \<lparr>Math_sin = (\<lambda>a. dbl (sin a)), Math_sqrt = (\<lambda>a. dbl (sqrt a))\<rparr>"

text \<open>
  Reading an element of a typed array (\<^verbatim>\<open>undefined\<close> beyond its end, which arithmetic
  turns into \<^verbatim>\<open>NaN\<close> and a comparison into false), and the value that a store into a
  \<^verbatim>\<open>Float32Array\<close> leaves in the array. A store beyond the end is ignored, as
  \<open>xs[i := v]\<close> is.
\<close>

definition rd_f :: "ieee list \<Rightarrow> nat \<Rightarrow> ieee" where
  "rd_f xs i = (if i < length xs then xs ! i else QNaN)"

fun store32 :: "ieee \<Rightarrow> ieee" where
  "store32 (Finite a) = fround a"
| "store32 (Infinity p) = Infinity p"
| "store32 QNaN = QNaN"

datatype jsval_f = Buffer_f "ieee list" | Inherited_f

definition templates_at_f :: "(string \<rightharpoonup> ieee list) \<Rightarrow> string \<Rightarrow> jsval_f option" where
  "templates_at_f ts name =
     (case ts name of
        Some buf \<Rightarrow> Some (Buffer_f buf)
      | None \<Rightarrow> if name \<in> set object_prototype_keys then Some Inherited_f else None)"

fun tget_f :: "jsval_f \<Rightarrow> nat \<Rightarrow> ieee" where
  "tget_f (Buffer_f buf) j = rd_f buf j"
| "tget_f Inherited_f j = QNaN"

text \<open>
  The part of a hand signal that \<^verbatim>\<open>update\<close> reads, and the fields of the engine that it
  reads or writes, with the names of the first embedding and the suffix \<open>_f\<close>.
\<close>

record point_f =
  x_f :: ieee
  y_f :: ieee
  z_f :: ieee

record hand_data_f =
  position_f :: point_f
  proximity_f :: ieee

record particle_system_f =
  count_f :: nat
  uTime_f :: ieee
  uGlow_f :: ieee
  positions_f :: "ieee list"
  aColor_f :: "ieee list"
  positionNeedsUpdate_f :: bool
  aColorNeedsUpdate_f :: bool
  templates_f :: "string \<rightharpoonup> ieee list"
  currentTarget_f :: string
  wavePhase_f :: ieee
  isWaving_f :: bool
  expanded_f :: bool
  attracted_f :: "bool option"

definition particle_target_f ::
  "math_object \<Rightarrow> jsval_f \<Rightarrow> point_f \<Rightarrow> nat \<Rightarrow> particle_system_f \<Rightarrow> ieee \<times> ieee \<times> ieee" where
  "particle_target_f m targetPositions attractPos i s =
     (let i3 = i * 3;
          tx = tget_f targetPositions i3;
          ty = tget_f targetPositions (i3 + 1);
          tz = tget_f targetPositions (i3 + 2);
          (tx, ty, tz) =
            (if expanded_f s
             then (imul tx (dbl 2.0), imul ty (dbl 2.0), imul tz (dbl 2.0))
             else (tx, ty, tz));
          ty =
            (if isWaving_f s
             then (let waveY = imul (isin m (iadd (imul tx (dbl 0.5)) (wavePhase_f s))) (dbl 2.0)
                   in iadd ty waveY)
             else ty)
      in if truthy (attracted_f s)
         then (iadd (x_f attractPos) (imul tx (dbl 0.1)),
               iadd (y_f attractPos) (imul ty (dbl 0.1)),
               iadd (z_f attractPos) (imul tz (dbl 0.1)))
         else (tx, ty, tz))"

text \<open>
  \<^verbatim>\<open>positions[i3] += (tx - cx) * ease\<close>: the element is read, the sum is computed in
  doubles, and the store rounds it to 32 bits.
\<close>

definition particle_lerp_f ::
  "ieee \<times> ieee \<times> ieee \<Rightarrow> nat \<Rightarrow> particle_system_f \<Rightarrow> particle_system_f" where
  "particle_lerp_f t i s =
     (case t of (tx, ty, tz) \<Rightarrow>
        let i3 = i * 3;
            ease = dbl 0.05;
            cx = rd_f (positions_f s) i3;
            cy = rd_f (positions_f s) (i3 + 1);
            cz = rd_f (positions_f s) (i3 + 2);
            s = s\<lparr>positions_f := (positions_f s)
                   [i3 := store32 (iadd (rd_f (positions_f s) i3) (imul (isub tx cx) ease))]\<rparr>;
            s = s\<lparr>positions_f := (positions_f s)
                   [i3 + 1 := store32 (iadd (rd_f (positions_f s) (i3 + 1)) (imul (isub ty cy) ease))]\<rparr>;
            s = s\<lparr>positions_f := (positions_f s)
                   [i3 + 2 := store32 (iadd (rd_f (positions_f s) (i3 + 2)) (imul (isub tz cz) ease))]\<rparr>
        in s)"

definition particle_repel_f ::
  "math_object \<Rightarrow> point_f option \<Rightarrow> nat \<Rightarrow> particle_system_f \<Rightarrow> particle_system_f" where
  "particle_repel_f m repelPos i s =
     (case repelPos of
        None \<Rightarrow> s
      | Some rp \<Rightarrow>
         if \<not> truthy (attracted_f s) then
           (let i3 = i * 3;
                dx = isub (rd_f (positions_f s) i3) (x_f rp);
                dy = isub (rd_f (positions_f s) (i3 + 1)) (y_f rp);
                dz = isub (rd_f (positions_f s) (i3 + 2)) (z_f rp);
                dsq = iadd (iadd (imul dx dx) (imul dy dy)) (imul dz dz)
            in if ilt dsq (dbl 4.0) then
                 (let dist = isqrt m dsq;
                      force = imul (isub (dbl 2.0) dist) (dbl 0.15);
                      s = s\<lparr>positions_f := (positions_f s)
                             [i3 := store32 (iadd (rd_f (positions_f s) i3) (imul dx force))]\<rparr>;
                      s = s\<lparr>positions_f := (positions_f s)
                             [i3 + 1 := store32 (iadd (rd_f (positions_f s) (i3 + 1)) (imul dy force))]\<rparr>;
                      s = s\<lparr>positions_f := (positions_f s)
                             [i3 + 2 := store32 (iadd (rd_f (positions_f s) (i3 + 2)) (imul dz force))]\<rparr>
                  in s\<lparr>aColor_f := (aColor_f s)[i3 := store32 (dbl 1.0)]\<rparr>)
               else if igt (rd_f (aColor_f s) i3) (dbl 0.5)
                 then s\<lparr>aColor_f := (aColor_f s)
                          [i3 := store32 (isub (rd_f (aColor_f s) i3) (dbl 0.02))]\<rparr>
                 else s)
         else s)"

definition particle_body_f ::
  "math_object \<Rightarrow> jsval_f \<Rightarrow> point_f option \<Rightarrow> point_f \<Rightarrow> nat \<Rightarrow> particle_system_f
     \<Rightarrow> particle_system_f" where
  "particle_body_f m targetPositions repelPos attractPos i s =
     particle_repel_f m repelPos i
       (particle_lerp_f (particle_target_f m targetPositions attractPos i s) i s)"

definition update_f ::
  "math_object \<Rightarrow> ieee \<Rightarrow> hand_data_f option \<Rightarrow> particle_system_f
     \<Rightarrow> js_error + particle_system_f" where
  "update_f m time handData s =
     (let s = s\<lparr>uTime_f := time\<rparr>;
          targetGlow = (case handData of
                          None \<Rightarrow> dbl 0
                        | Some h \<Rightarrow> if truthy_f (proximity_f h) then proximity_f h else dbl 0);
          s = s\<lparr>uGlow_f := iadd (uGlow_f s) (imul (isub targetGlow (uGlow_f s)) (dbl 0.1))\<rparr>;
          targetPositions = templates_at_f (templates_f s) (currentTarget_f s);
          repelPos = map_option position_f handData;
          attractPos = (case handData of
                          None \<Rightarrow> \<lparr>x_f = dbl 0, y_f = dbl 0, z_f = dbl 0\<rparr>
                        | Some h \<Rightarrow> position_f h);
          s = (if isWaving_f s then s\<lparr>wavePhase_f := iadd (wavePhase_f s) (dbl 0.1)\<rparr> else s)
      in case targetPositions of
           None \<Rightarrow>
             if count_f s = 0
             then Inr (s\<lparr>positionNeedsUpdate_f := True, aColorNeedsUpdate_f := True\<rparr>)
             else Inl TypeError
         | Some tp \<Rightarrow>
             Inr ((fold (particle_body_f m tp repelPos attractPos) [0..<count_f s] s)
                    \<lparr>positionNeedsUpdate_f := True, aColorNeedsUpdate_f := True\<rparr>))"

text \<open>
  The value that one easing step stores, from the coordinate \<open>c\<close> read and the target
  coordinate \<open>t\<close>.
\<close>

definition ease_f :: "ieee \<Rightarrow> ieee \<Rightarrow> ieee" where
  "ease_f c t = store32 (iadd c (imul (isub t c) (dbl 0.05)))"

text \<open>
  An engine with one particle at \<open>(c, 0, 0)\<close> whose \<open>random\<close> template point is
  \<open>(t, 0, 0)\<close>, with the flags and the current template as the constructor leaves
  them; the other three templates, which \<^verbatim>\<open>update\<close> does not read while \<open>random\<close> is
  the current one, hold one point each. The constructor places a particle at 2 when
  the draw is 0.7, since \<^verbatim>\<open>(0.7 - 0.5) * 10\<close> rounds to 2 on storing.
\<close>

definition one_particle :: "real \<Rightarrow> real \<Rightarrow> particle_system_f" where
  "one_particle c t =
     \<lparr>count_f = 1, uTime_f = Finite 0, uGlow_f = Finite 0,
      positions_f = [Finite c, Finite 0, Finite 0],
      aColor_f = [Finite (1 / 4), Finite (1 / 2), Finite (7 / 8)],
      positionNeedsUpdate_f = False, aColorNeedsUpdate_f = False,
      templates_f = [''random'' \<mapsto> [Finite t, Finite 0, Finite 0],
                     ''sphere'' \<mapsto> [Finite 4, Finite 0, Finite 0],
                     ''cube'' \<mapsto> [Finite 0, Finite 0, Finite 0],
                     ''saturn'' \<mapsto> [Finite 3, Finite 0, Finite 0]],
      currentTarget_f = ''random'',
      wavePhase_f = Finite 0, isWaving_f = False, expanded_f = False, attracted_f = None\<rparr>"

section \<open>Properties\<close>

subsection \<open>The gesture classifier\<close>

lemma lm_in_range: "i < length ls \<Longrightarrow> lm ls i = Inr (ls ! i)"
  by (simp add: lm_def)

lemma ebind_Inr: "ebind (Inr v) f = f v"
  by (simp add: ebind_def)

lemma planar_distance_sq: "(planar_distance p q)\<^sup>2 = distSq p q"
  by (simp add: planar_distance_def distSq_def)

lemma isExtended_wf:
  "tip < length ls \<Longrightarrow> pip < length ls \<Longrightarrow> 0 < length ls \<Longrightarrow>
   isExtended ls tip pip mcp = Inr (extended ls tip pip)"
  by (simp add: isExtended_def lm_in_range ebind_Inr extended_def planar_distance_sq)

lemma openCount_4: "length (filter (\<lambda>b. b) [a, b, c, d]) = 4 \<longleftrightarrow> a \<and> b \<and> c \<and> d"
  by (cases a; cases b; cases c; cases d) simp_all

lemma openCount_0: "length (filter (\<lambda>b. b) [a, b, c, d]) = 0 \<longleftrightarrow> \<not> a \<and> \<not> b \<and> \<not> c \<and> \<not> d"
  by (cases a; cases b; cases c; cases d) simp_all

lemma detectGesture_wf:
  assumes "length ls = 21"
  shows "detectGesture ls =
     Inr (if planar_distance (ls ! 4) (ls ! 8) < 0.05 then ''pinch''
          else if extended ls 8 6 \<and> extended ls 12 10 \<and> extended ls 16 14 \<and> extended ls 20 18
            then ''open''
          else if \<not> extended ls 8 6 \<and> \<not> extended ls 12 10 \<and> \<not> extended ls 16 14 \<and> \<not> extended ls 20 18
            then ''fist''
          else ''neutral'')"
  using assms
  by (simp add: detectGesture_def isExtended_wf lm_in_range ebind_Inr Let_def
      openCount_4 openCount_0 planar_distance_def distSq_def del: One_nat_def)

lemma extended_upd3:
  "length ls = 21 \<Longrightarrow> tip \<noteq> 3 \<Longrightarrow> pip \<noteq> 3 \<Longrightarrow> extended (ls[3 := p]) tip pip = extended ls tip pip"
  by (simp add: extended_def)

text \<open>
  C3. For a landmark set of 21 points the classifier returns \<open>pinch\<close> exactly when the
  planar distance between thumb tip (4) and index tip (8) is below 0.05; otherwise
  \<open>open\<close> exactly when index, middle, ring and pinky are all extended; otherwise
  \<open>fist\<close> exactly when none of them is; otherwise \<open>neutral\<close>. The thumb's extension
  does not enter: moving the thumb's IP joint (3), the only landmark that only the
  thumb's extension reads, leaves the result as it is, and two hands that agree on the
  pinch test and on the four fingers get the same result.
\<close>

theorem detectGesture_classification:
  assumes "length landmarks = 21"
  shows "(detectGesture landmarks = Inr ''pinch'' \<longleftrightarrow>
            planar_distance (landmarks ! 4) (landmarks ! 8) < 0.05)
       \<and> (\<not> planar_distance (landmarks ! 4) (landmarks ! 8) < 0.05 \<longrightarrow>
            (detectGesture landmarks = Inr ''open'' \<longleftrightarrow>
               extended landmarks 8 6 \<and> extended landmarks 12 10 \<and>
               extended landmarks 16 14 \<and> extended landmarks 20 18))
       \<and> (\<not> planar_distance (landmarks ! 4) (landmarks ! 8) < 0.05 \<and>
          \<not> (extended landmarks 8 6 \<and> extended landmarks 12 10 \<and>
             extended landmarks 16 14 \<and> extended landmarks 20 18) \<longrightarrow>
            (detectGesture landmarks = Inr ''fist'' \<longleftrightarrow>
               \<not> extended landmarks 8 6 \<and> \<not> extended landmarks 12 10 \<and>
               \<not> extended landmarks 16 14 \<and> \<not> extended landmarks 20 18))
       \<and> (\<not> planar_distance (landmarks ! 4) (landmarks ! 8) < 0.05 \<and>
          \<not> (extended landmarks 8 6 \<and> extended landmarks 12 10 \<and>
             extended landmarks 16 14 \<and> extended landmarks 20 18) \<and>
          \<not> (\<not> extended landmarks 8 6 \<and> \<not> extended landmarks 12 10 \<and>
             \<not> extended landmarks 16 14 \<and> \<not> extended landmarks 20 18) \<longrightarrow>
            detectGesture landmarks = Inr ''neutral'')
       \<and> (\<forall>p. detectGesture (landmarks[3 := p]) = detectGesture landmarks)
       \<and> (\<forall>other. length other = 21 \<and>
            (planar_distance (other ! 4) (other ! 8) < 0.05 \<longleftrightarrow>
               planar_distance (landmarks ! 4) (landmarks ! 8) < 0.05) \<and>
            extended other 8 6 = extended landmarks 8 6 \<and>
            extended other 12 10 = extended landmarks 12 10 \<and>
            extended other 16 14 = extended landmarks 16 14 \<and>
            extended other 20 18 = extended landmarks 20 18 \<longrightarrow>
            detectGesture other = detectGesture landmarks)"
proof -
  have thumb: "detectGesture (landmarks[3 := p]) = detectGesture landmarks" for p
    using assms by (simp add: detectGesture_wf extended_upd3)
  have same: "detectGesture other = detectGesture landmarks"
    if "length other = 21"
      "planar_distance (other ! 4) (other ! 8) < 0.05 \<longleftrightarrow>
         planar_distance (landmarks ! 4) (landmarks ! 8) < 0.05"
      "extended other 8 6 = extended landmarks 8 6"
      "extended other 12 10 = extended landmarks 12 10"
      "extended other 16 14 = extended landmarks 16 14"
      "extended other 20 18 = extended landmarks 20 18" for other
    using that assms by (simp add: detectGesture_wf)
  have cascade: "(detectGesture landmarks = Inr ''pinch'' \<longleftrightarrow>
            planar_distance (landmarks ! 4) (landmarks ! 8) < 0.05)
       \<and> (\<not> planar_distance (landmarks ! 4) (landmarks ! 8) < 0.05 \<longrightarrow>
            (detectGesture landmarks = Inr ''open'' \<longleftrightarrow>
               extended landmarks 8 6 \<and> extended landmarks 12 10 \<and>
               extended landmarks 16 14 \<and> extended landmarks 20 18))
       \<and> (\<not> planar_distance (landmarks ! 4) (landmarks ! 8) < 0.05 \<and>
          \<not> (extended landmarks 8 6 \<and> extended landmarks 12 10 \<and>
             extended landmarks 16 14 \<and> extended landmarks 20 18) \<longrightarrow>
            (detectGesture landmarks = Inr ''fist'' \<longleftrightarrow>
               \<not> extended landmarks 8 6 \<and> \<not> extended landmarks 12 10 \<and>
               \<not> extended landmarks 16 14 \<and> \<not> extended landmarks 20 18))
       \<and> (\<not> planar_distance (landmarks ! 4) (landmarks ! 8) < 0.05 \<and>
          \<not> (extended landmarks 8 6 \<and> extended landmarks 12 10 \<and>
             extended landmarks 16 14 \<and> extended landmarks 20 18) \<and>
          \<not> (\<not> extended landmarks 8 6 \<and> \<not> extended landmarks 12 10 \<and>
             \<not> extended landmarks 16 14 \<and> \<not> extended landmarks 20 18) \<longrightarrow>
            detectGesture landmarks = Inr ''neutral'')"
    using assms by (simp add: detectGesture_wf)
  from cascade thumb same show ?thesis
    by blast
qed

theorem detectGesture_classification_witness:
  "length open_hand = 21 \<and> detectGesture open_hand = Inr ''open''
   \<and> detectGesture (open_hand[3 := \<lparr>pt_x = 0, pt_y = 5, pt_z = 0\<rparr>]) = Inr ''open''"
proof -
  have len: "length open_hand = 21"
    by (simp add: open_hand_def)
  have far: "\<not> planar_distance (open_hand ! 4) (open_hand ! 8) < 0.05"
    by (simp add: open_hand_def planar_distance_def)
  have ext: "extended open_hand 8 6 \<and> extended open_hand 12 10 \<and>
             extended open_hand 16 14 \<and> extended open_hand 20 18"
    by (simp add: open_hand_def extended_def planar_distance_def)
  show ?thesis
    using len detectGesture_classification [OF len] far ext by simp
qed

subsection \<open>The extractor\<close>

lemma detectGesture_ok:
  assumes "21 \<le> length ls"
  shows "\<exists>g. detectGesture ls = Inr g"
proof -
  from assms have "ls \<noteq> []"
    by auto
  with assms show ?thesis
    by (simp add: detectGesture_def isExtended_def lm_in_range ebind_Inr Let_def)
qed

lemma getData_present:
  assumes "tracker_results t = hand_present ls others" and "21 \<le> length ls"
  shows "\<exists>d. getData t = Inr (Some d, t\<lparr>lastPalmX := Some (pt_x (ls ! 9))\<rparr>) \<and>
             swipe d =
               (case lastPalmX t of
                  None \<Rightarrow> ''none''
                | Some l \<Rightarrow>
                    if \<bar>pt_x (ls ! 9) - l\<bar> > 0.03
                    then (if pt_x (ls ! 9) - l > 0 then ''left'' else ''right'')
                    else ''none'')"
proof -
  have r: "tracker_results t = Some \<lparr>multiHandLandmarks = Some (ls # others)\<rparr>"
    using assms(1) by (simp add: hand_present_def)
  from assms(2) have ne: "ls \<noteq> []"
    by auto
  from detectGesture_ok [OF assms(2)] obtain g where g: "detectGesture ls = Inr g"
    by blast
  show ?thesis
    using assms(2) ne
    by (simp add: getData_def r lm_in_range ebind_Inr g Let_def split: option.splits)
qed

lemma getData_absent_eq:
  assumes "no_hand (tracker_results t)"
  shows "getData t = Inr (None, t\<lparr>lastPalmX := None\<rparr>)"
  using assms
  by (auto simp: getData_def no_hand_def split: option.splits list.splits)

lemma results_cases:
  "no_hand r \<or> (\<exists>ls others. r = hand_present ls others)"
proof (cases r)
  case None
  then show ?thesis by (simp add: no_hand_def)
next
  case (Some r')
  show ?thesis
  proof (cases "multiHandLandmarks r'")
    case None
    with Some show ?thesis by (simp add: no_hand_def)
  next
    case inner: (Some lss)
    show ?thesis
    proof (cases lss)
      case Nil
      with Some inner show ?thesis by (simp add: no_hand_def)
    next
      case (Cons ls others)
      with Some inner have "r = hand_present ls others"
        by (cases r') (simp add: hand_present_def)
      then show ?thesis by blast
    qed
  qed
qed

text \<open>
  C4. Two consecutive frames with a hand of 21 landmarks, with \<open>delta\<close> the x-coordinate
  of landmark 9 in the second frame minus the one stored from the first: the second
  call returns swipe \<open>left\<close> if \<open>\<bar>delta\<bar> > 0.03\<close> and \<open>delta > 0\<close>, \<open>right\<close> if
  \<open>\<bar>delta\<bar> > 0.03\<close> and \<open>delta < 0\<close>, and \<open>none\<close> if \<open>\<bar>delta\<bar> \<le> 0.03\<close>. Each call with a
  hand stores the x-coordinate of its landmark 9 in \<open>lastPalmX\<close>, whatever the swipe.
  A frame with a hand that comes first, or right after a frame without one, yields
  swipe \<open>none\<close>.
\<close>

theorem getData_swipe:
  assumes "length l1 = 21" and "length l2 = 21"
  shows "(\<exists>d1 t1 d2 t2.
           getData (onResults (hand_present l1 o1) t) = Inr (Some d1, t1)
         \<and> lastPalmX t1 = Some (pt_x (l1 ! 9))
         \<and> getData (onResults (hand_present l2 o2) t1) = Inr (Some d2, t2)
         \<and> lastPalmX t2 = Some (pt_x (l2 ! 9))
         \<and> (\<bar>pt_x (l2 ! 9) - pt_x (l1 ! 9)\<bar> > 0.03 \<and> pt_x (l2 ! 9) - pt_x (l1 ! 9) > 0
              \<longrightarrow> swipe d2 = ''left'')
         \<and> (\<bar>pt_x (l2 ! 9) - pt_x (l1 ! 9)\<bar> > 0.03 \<and> pt_x (l2 ! 9) - pt_x (l1 ! 9) < 0
              \<longrightarrow> swipe d2 = ''right'')
         \<and> (\<bar>pt_x (l2 ! 9) - pt_x (l1 ! 9)\<bar> \<le> 0.03 \<longrightarrow> swipe d2 = ''none'')
         \<and> (lastPalmX t = None \<longrightarrow> swipe d1 = ''none''))
       \<and> (\<forall>t0. t0 = HandTracker \<or> (\<exists>r t'. no_hand r \<and> getData (onResults r t') = Inr (None, t0))
              \<longrightarrow> (\<exists>d t''. getData (onResults (hand_present l1 o1) t0) = Inr (Some d, t'')
                           \<and> swipe d = ''none''))"
proof -
  let ?t0 = "onResults (hand_present l1 o1) t"
  have r0: "tracker_results ?t0 = hand_present l1 o1"
    by (simp add: onResults_def)
  from assms have w1: "21 \<le> length l1" and w2: "21 \<le> length l2" by simp_all
  from getData_present [OF r0 w1] obtain d1 where
    g1: "getData ?t0 = Inr (Some d1, ?t0\<lparr>lastPalmX := Some (pt_x (l1 ! 9))\<rparr>)" and
    s1: "swipe d1 = (case lastPalmX ?t0 of None \<Rightarrow> ''none''
           | Some l \<Rightarrow> if \<bar>pt_x (l1 ! 9) - l\<bar> > 0.03
               then (if pt_x (l1 ! 9) - l > 0 then ''left'' else ''right'') else ''none'')"
    by blast
  let ?t1 = "?t0\<lparr>lastPalmX := Some (pt_x (l1 ! 9))\<rparr>"
  let ?t1' = "onResults (hand_present l2 o2) ?t1"
  have r1: "tracker_results ?t1' = hand_present l2 o2"
    by (simp add: onResults_def)
  from getData_present [OF r1 w2] obtain d2 where
    g2: "getData ?t1' = Inr (Some d2, ?t1'\<lparr>lastPalmX := Some (pt_x (l2 ! 9))\<rparr>)" and
    s2: "swipe d2 = (case lastPalmX ?t1' of None \<Rightarrow> ''none''
           | Some l \<Rightarrow> if \<bar>pt_x (l2 ! 9) - l\<bar> > 0.03
               then (if pt_x (l2 ! 9) - l > 0 then ''left'' else ''right'') else ''none'')"
    by blast
  have l1: "lastPalmX ?t1' = Some (pt_x (l1 ! 9))"
    by (simp add: onResults_def)
  have l0: "lastPalmX ?t0 = lastPalmX t"
    by (simp add: onResults_def)
  have first: "lastPalmX t = None \<longrightarrow> swipe d1 = ''none''"
    using s1 by (simp add: l0)
  have left: "\<bar>pt_x (l2 ! 9) - pt_x (l1 ! 9)\<bar> > 0.03 \<and> pt_x (l2 ! 9) - pt_x (l1 ! 9) > 0
              \<longrightarrow> swipe d2 = ''left''"
    using s2 by (auto simp add: l1 split: if_splits)
  have right: "\<bar>pt_x (l2 ! 9) - pt_x (l1 ! 9)\<bar> > 0.03 \<and> pt_x (l2 ! 9) - pt_x (l1 ! 9) < 0
              \<longrightarrow> swipe d2 = ''right''"
    using s2 by (auto simp add: l1 split: if_splits)
  have none: "\<bar>pt_x (l2 ! 9) - pt_x (l1 ! 9)\<bar> \<le> 0.03 \<longrightarrow> swipe d2 = ''none''"
    using s2 by (auto simp add: l1 split: if_splits)
  have two: "\<exists>d1 t1 d2 t2.
           getData (onResults (hand_present l1 o1) t) = Inr (Some d1, t1)
         \<and> lastPalmX t1 = Some (pt_x (l1 ! 9))
         \<and> getData (onResults (hand_present l2 o2) t1) = Inr (Some d2, t2)
         \<and> lastPalmX t2 = Some (pt_x (l2 ! 9))
         \<and> (\<bar>pt_x (l2 ! 9) - pt_x (l1 ! 9)\<bar> > 0.03 \<and> pt_x (l2 ! 9) - pt_x (l1 ! 9) > 0
              \<longrightarrow> swipe d2 = ''left'')
         \<and> (\<bar>pt_x (l2 ! 9) - pt_x (l1 ! 9)\<bar> > 0.03 \<and> pt_x (l2 ! 9) - pt_x (l1 ! 9) < 0
              \<longrightarrow> swipe d2 = ''right'')
         \<and> (\<bar>pt_x (l2 ! 9) - pt_x (l1 ! 9)\<bar> \<le> 0.03 \<longrightarrow> swipe d2 = ''none'')
         \<and> (lastPalmX t = None \<longrightarrow> swipe d1 = ''none'')"
    apply (rule exI [of _ d1], rule exI [of _ ?t1], rule exI [of _ d2],
        rule exI [of _ "?t1'\<lparr>lastPalmX := Some (pt_x (l2 ! 9))\<rparr>"])
    using g1 g2 first left right none by simp
  have fresh: "\<exists>d t''. getData (onResults (hand_present l1 o1) t0) = Inr (Some d, t'') \<and> swipe d = ''none''"
    if "t0 = HandTracker \<or> (\<exists>r t'. no_hand r \<and> getData (onResults r t') = Inr (None, t0))" for t0
  proof -
    have "lastPalmX t0 = None"
      using that
    proof
      assume "t0 = HandTracker"
      then show ?thesis by (simp add: HandTracker_def)
    next
      assume "\<exists>r t'. no_hand r \<and> getData (onResults r t') = Inr (None, t0)"
      then obtain r t' where nh: "no_hand r" and g: "getData (onResults r t') = Inr (None, t0)"
        by blast
      from nh have "no_hand (tracker_results (onResults r t'))"
        by (simp add: onResults_def)
      from getData_absent_eq [OF this] g show ?thesis
        by auto
    qed
    then have none0: "lastPalmX (onResults (hand_present l1 o1) t0) = None"
      by (simp add: onResults_def)
    have "tracker_results (onResults (hand_present l1 o1) t0) = hand_present l1 o1"
      by (simp add: onResults_def)
    from getData_present [OF this w1] show ?thesis
      by (auto simp add: none0)
  qed
  from two fresh show ?thesis
    by blast
qed

theorem getData_swipe_witness:
  "length (replicate 21 \<lparr>pt_x = 0.50, pt_y = 0, pt_z = 0\<rparr>) = 21 \<and>
   length (replicate 21 \<lparr>pt_x = 0.56, pt_y = 0, pt_z = 0\<rparr>) = 21 \<and>
   (\<exists>d1 t1 d2 t2.
      getData (onResults (hand_present (replicate 21 \<lparr>pt_x = 0.50, pt_y = 0, pt_z = 0\<rparr>) []) HandTracker)
        = Inr (Some d1, t1) \<and>
      getData (onResults (hand_present (replicate 21 \<lparr>pt_x = 0.56, pt_y = 0, pt_z = 0\<rparr>) []) t1)
        = Inr (Some d2, t2) \<and>
      swipe d1 = ''none'' \<and> swipe d2 = ''left'' \<and> lastPalmX t2 = Some 0.56)"
proof -
  let ?l1 = "replicate 21 \<lparr>pt_x = 0.50, pt_y = 0, pt_z = 0\<rparr>"
  let ?l2 = "replicate 21 \<lparr>pt_x = 0.56, pt_y = 0, pt_z = 0\<rparr>"
  have len1: "length ?l1 = 21" and len2: "length ?l2 = 21"
    by simp_all
  have init: "lastPalmX HandTracker = None"
    by (simp add: HandTracker_def)
  have delta: "\<bar>pt_x (?l2 ! 9) - pt_x (?l1 ! 9)\<bar> > 0.03 \<and> pt_x (?l2 ! 9) - pt_x (?l1 ! 9) > 0"
    by simp
  have x2: "pt_x (?l2 ! 9) = 0.56"
    by simp
  from getData_swipe [OF len1 len2, of "[]" HandTracker "[]"] init delta x2 len1 len2
  show ?thesis
    by (metis (no_types, lifting))
qed

lemma getData_null_only_absent:
  assumes "getData t = Inr (None, t')"
  shows "no_hand (tracker_results t)"
  using assms
  by (auto simp: getData_def no_hand_def ebind_def Let_def
      split: option.splits list.splits sum.splits)

text \<open>
  C9. Called with no hand present, \<open>getData\<close> returns \<open>null\<close> and leaves \<open>lastPalmX\<close>
  absent, without throwing. Absence is the only failure mode: \<open>null\<close> is returned for
  no other input, a hand of 21 landmarks always yields a signal, and the call throws
  only when a hand with fewer than 21 landmarks is given.
\<close>

theorem getData_absent:
  "(no_hand (tracker_results t) \<longrightarrow> getData t = Inr (None, t\<lparr>lastPalmX := None\<rparr>))
   \<and> (\<forall>t'. getData t = Inr (None, t') \<longrightarrow> no_hand (tracker_results t))
   \<and> (\<forall>ls others. tracker_results t = hand_present ls others \<and> length ls = 21
         \<longrightarrow> (\<exists>d t'. getData t = Inr (Some d, t')))
   \<and> (\<forall>e. getData t = Inl e
         \<longrightarrow> (\<exists>ls others. tracker_results t = hand_present ls others \<and> length ls < 21))"
proof -
  have a: "no_hand (tracker_results t) \<longrightarrow> getData t = Inr (None, t\<lparr>lastPalmX := None\<rparr>)"
    by (simp add: getData_absent_eq)
  have b: "\<forall>t'. getData t = Inr (None, t') \<longrightarrow> no_hand (tracker_results t)"
    using getData_null_only_absent by blast
  have c: "\<exists>d t'. getData t = Inr (Some d, t')"
    if "tracker_results t = hand_present ls others" "21 \<le> length ls" for ls others
    using getData_present [OF that] by blast
  have d: "\<exists>ls others. tracker_results t = hand_present ls others \<and> length ls < 21"
    if e: "getData t = Inl e" for e
  proof -
    from results_cases [of "tracker_results t"] show ?thesis
    proof
      assume "no_hand (tracker_results t)"
      with a e show ?thesis by simp
    next
      assume "\<exists>ls others. tracker_results t = hand_present ls others"
      then obtain ls others where p: "tracker_results t = hand_present ls others"
        by blast
      have "length ls < 21"
      proof (rule ccontr)
        assume "\<not> length ls < 21"
        then have "21 \<le> length ls" by simp
        from c [OF p this] e show False by auto
      qed
      with p show ?thesis by blast
    qed
  qed
  from a b c d show ?thesis
    by (metis order_refl)
qed

theorem getData_absent_witness:
  "no_hand (tracker_results HandTracker)
   \<and> getData HandTracker = Inr (None, HandTracker\<lparr>lastPalmX := None\<rparr>)
   \<and> tracker_results (onResults (hand_present open_hand []) HandTracker) = hand_present open_hand []
   \<and> length open_hand = 21
   \<and> (\<exists>d t'. getData (onResults (hand_present open_hand []) HandTracker) = Inr (Some d, t'))
   \<and> getData (onResults (hand_present [] []) HandTracker) = Inl TypeError
   \<and> (\<exists>ls others. tracker_results (onResults (hand_present [] []) HandTracker) = hand_present ls others
         \<and> length ls < 21)"
proof -
  have nh: "no_hand (tracker_results HandTracker)"
    by (simp add: HandTracker_def no_hand_def)
  have pr: "tracker_results (onResults (hand_present open_hand []) HandTracker) = hand_present open_hand []"
    by (simp add: onResults_def)
  have len: "length open_hand = 21"
    by (simp add: open_hand_def)
  have err: "getData (onResults (hand_present [] []) HandTracker) = Inl TypeError"
    by (simp add: getData_def onResults_def hand_present_def lm_def ebind_def)
  from nh getData_absent [of HandTracker]
  have 1: "getData HandTracker = Inr (None, HandTracker\<lparr>lastPalmX := None\<rparr>)"
    by blast
  from pr len getData_absent [of "onResults (hand_present open_hand []) HandTracker"]
  have 2: "\<exists>d t'. getData (onResults (hand_present open_hand []) HandTracker) = Inr (Some d, t')"
    by blast
  from err getData_absent [of "onResults (hand_present [] []) HandTracker"]
  have 3: "\<exists>ls others. tracker_results (onResults (hand_present [] []) HandTracker) = hand_present ls others
         \<and> length ls < 21"
    by blast
  from nh pr len err 1 2 3 show ?thesis
    by blast
qed

subsection \<open>What the particle loop leaves alone\<close>

lemma particle_lerp_frame:
  "\<exists>P. particle_lerp t i s = s\<lparr>positions := P\<rparr>"
  by (cases t) (simp add: particle_lerp_def Let_def, blast)

lemma particle_repel_eq:
  "particle_repel rp i s =
     s\<lparr>positions := positions (particle_repel rp i s), aColor := aColor (particle_repel rp i s)\<rparr>"
  by (simp add: particle_repel_def Let_def split: option.splits)

lemma particle_repel_frame:
  "\<exists>P C. particle_repel rp i s = s\<lparr>positions := P, aColor := C\<rparr>"
  using particle_repel_eq by blast

lemma particle_body_frame:
  "\<exists>P C. particle_body tp rp ap i s = s\<lparr>positions := P, aColor := C\<rparr>"
proof -
  obtain P where l: "particle_lerp (particle_target tp ap i s) i s = s\<lparr>positions := P\<rparr>"
    using particle_lerp_frame by blast
  obtain P' C where "particle_repel rp i (s\<lparr>positions := P\<rparr>) = s\<lparr>positions := P\<rparr>\<lparr>positions := P', aColor := C\<rparr>"
    using particle_repel_frame by blast
  then have "particle_body tp rp ap i s = s\<lparr>positions := P', aColor := C\<rparr>"
    by (simp add: particle_body_def l)
  then show ?thesis by blast
qed

lemma particle_loop_frame:
  "\<exists>P C. fold (particle_body tp rp ap) is s = s\<lparr>positions := P, aColor := C\<rparr>"
proof (induction "is" arbitrary: s)
  case Nil
  have "s = s\<lparr>positions := positions s, aColor := aColor s\<rparr>" by simp
  then show ?case by (metis fold_simps(1))
next
  case (Cons i "is")
  obtain P C where b: "particle_body tp rp ap i s = s\<lparr>positions := P, aColor := C\<rparr>"
    using particle_body_frame by blast
  obtain P' C' where "fold (particle_body tp rp ap) is (s\<lparr>positions := P, aColor := C\<rparr>)
      = s\<lparr>positions := P, aColor := C\<rparr>\<lparr>positions := P', aColor := C'\<rparr>"
    using Cons.IH by blast
  then have "fold (particle_body tp rp ap) (i # is) s = s\<lparr>positions := P', aColor := C'\<rparr>"
    by (simp add: b)
  then show ?case by blast
qed

lemma update_unfold:
  "update time h s =
     (case templates_at (templates s) (currentTarget s) of
        None \<Rightarrow>
          if count s = 0
          then Inr ((before_loop time h s)\<lparr>positionNeedsUpdate := True, aColorNeedsUpdate := True\<rparr>)
          else Inl TypeError
      | Some tp \<Rightarrow>
          Inr ((fold (particle_body tp (map_option position h) (attract_pos h))
                  [0..<count s] (before_loop time h s))
                 \<lparr>positionNeedsUpdate := True, aColorNeedsUpdate := True\<rparr>))"
proof -
  have tg: "(case h of None \<Rightarrow> 0 | Some d \<Rightarrow> if proximity d \<noteq> 0 then proximity d else 0) = glow_target h"
    by (simp add: glow_target_def split: option.splits)
  show ?thesis
    by (cases "isWaving s"; cases "templates_at (templates s) (currentTarget s)")
      (simp_all add: update_def Let_def tg before_loop_def attract_pos_def)
qed

lemma update_frame:
  assumes "update time h s = Inr s'"
  shows "\<exists>P C. s' = (before_loop time h s)\<lparr>positions := P, aColor := C,
                       positionNeedsUpdate := True, aColorNeedsUpdate := True\<rparr>"
proof (cases "templates_at (templates s) (currentTarget s)")
  case None
  with assms have "s' = (before_loop time h s)\<lparr>positionNeedsUpdate := True, aColorNeedsUpdate := True\<rparr>"
    by (simp add: update_unfold split: if_splits)
  then have "s' = (before_loop time h s)\<lparr>positions := positions (before_loop time h s),
                     aColor := aColor (before_loop time h s),
                     positionNeedsUpdate := True, aColorNeedsUpdate := True\<rparr>"
    by simp
  then show ?thesis by blast
next
  case (Some tp)
  obtain P C where f: "fold (particle_body tp (map_option position h) (attract_pos h))
        [0..<count s] (before_loop time h s)
       = (before_loop time h s)\<lparr>positions := P, aColor := C\<rparr>"
    using particle_loop_frame by blast
  from assms Some have "s' = (before_loop time h s)\<lparr>positions := P, aColor := C\<rparr>
      \<lparr>positionNeedsUpdate := True, aColorNeedsUpdate := True\<rparr>"
    by (simp add: update_unfold f)
  then show ?thesis by auto
qed

lemma before_loop_fields:
  "count (before_loop time h s) = count s"
  "expanded (before_loop time h s) = expanded s"
  "attracted (before_loop time h s) = attracted s"
  "isWaving (before_loop time h s) = isWaving s"
  "templates (before_loop time h s) = templates s"
  "currentTarget (before_loop time h s) = currentTarget s"
  "positions (before_loop time h s) = positions s"
  "aColor (before_loop time h s) = aColor s"
  "uGlow (before_loop time h s) = uGlow s + (glow_target h - uGlow s) * 0.1"
  by (simp_all add: before_loop_def)

lemma update_fields:
  assumes "update time h s = Inr s'"
  shows "expanded s' = expanded s" and "attracted s' = attracted s"
    and "templates s' = templates s" and "currentTarget s' = currentTarget s"
    and "count s' = count s"
    and "uGlow s' = uGlow s + (glow_target h - uGlow s) * 0.1"
proof -
  from update_frame [OF assms] obtain P C where
    s': "s' = (before_loop time h s)\<lparr>positions := P, aColor := C,
                       positionNeedsUpdate := True, aColorNeedsUpdate := True\<rparr>"
    by blast
  show "expanded s' = expanded s" and "attracted s' = attracted s"
    and "templates s' = templates s" and "currentTarget s' = currentTarget s"
    and "count s' = count s"
    and "uGlow s' = uGlow s + (glow_target h - uGlow s) * 0.1"
    by (simp_all add: s' before_loop_fields)
qed

lemma update_ok:
  assumes "templates_at (templates s) (currentTarget s) \<noteq> None"
  shows "\<exists>s'. update time h s = Inr s'"
  using assms by (auto simp add: update_unfold)

subsection \<open>The engine after construction\<close>

lemma ParticleSystem_fields:
  "count (ParticleSystem rnd n) = n"
  "uGlow (ParticleSystem rnd n) = 0"
  "currentTarget (ParticleSystem rnd n) = ''random''"
  "expanded (ParticleSystem rnd n) = False"
  "attracted (ParticleSystem rnd n) = None"
  "isWaving (ParticleSystem rnd n) = False"
  by (simp_all add: ParticleSystem_def split: prod.splits)

lemma ParticleSystem_templates:
  "dom (templates (ParticleSystem rnd n)) = {''random'', ''sphere'', ''cube'', ''saturn''}"
  by (auto simp add: ParticleSystem_def split: prod.splits if_splits)

lemma templates_at_own:
  "name \<in> dom ts \<Longrightarrow> templates_at ts name \<noteq> None"
  by (auto simp add: templates_at_def)

subsection \<open>The setters\<close>

lemma setTarget_known:
  assumes "name \<in> dom (templates s)"
  shows "setTarget name s = s\<lparr>currentTarget := name, expanded := False, attracted := Some False\<rparr>"
  using assms by (auto simp add: setTarget_def templates_at_def)

lemma setTarget_unknown:
  assumes "name \<notin> dom (templates s)" and "name \<notin> set object_prototype_keys"
  shows "setTarget name s = s"
  using assms by (auto simp add: setTarget_def templates_at_def split: option.splits)

lemma setTarget_inherited:
  assumes "name \<notin> dom (templates s)" and "name \<in> set object_prototype_keys"
  shows "setTarget name s = s\<lparr>currentTarget := name, expanded := False, attracted := Some False\<rparr>"
  using assms by (auto simp add: setTarget_def templates_at_def split: option.splits)

lemma do_call_invariant:
  assumes "\<not> (expanded s \<and> truthy (attracted s))"
    and "templates_at (templates s) (currentTarget s) \<noteq> None"
  shows "\<exists>s'. do_call c s = Inr s' \<and> \<not> (expanded s' \<and> truthy (attracted s'))
            \<and> templates_at (templates s') (currentTarget s') \<noteq> None"
proof (cases c)
  case (SetTarget name)
  with assms show ?thesis
    by (auto simp add: setTarget_def truthy_def split: option.splits)
next
  case (SetExpanded state)
  with assms show ?thesis
    by (auto simp add: setExpanded_def truthy_def Let_def)
next
  case (SetAttract state)
  with assms show ?thesis
    by (auto simp add: setAttract_def truthy_def Let_def)
next
  case TriggerWave
  with assms show ?thesis
    by (simp add: triggerWave_def)
next
  case WaveTimeout
  with assms show ?thesis
    by (simp add: waveTimeout_def)
next
  case (Update time h)
  from update_ok [OF assms(2)] obtain s' where u: "update time h s = Inr s'"
    by blast
  from update_fields [OF u] assms Update u show ?thesis
    by simp
qed

lemma run_invariant:
  assumes "\<not> (expanded s \<and> truthy (attracted s))"
    and "templates_at (templates s) (currentTarget s) \<noteq> None"
  shows "\<exists>s'. run cs s = Inr s' \<and> \<not> (expanded s' \<and> truthy (attracted s'))
            \<and> templates_at (templates s') (currentTarget s') \<noteq> None"
  using assms
proof (induction cs arbitrary: s)
  case Nil
  then show ?case by simp
next
  case (Cons c cs)
  from do_call_invariant [OF Cons.prems] obtain s1 where
    c: "do_call c s = Inr s1" and i1: "\<not> (expanded s1 \<and> truthy (attracted s1))"
    and i2: "templates_at (templates s1) (currentTarget s1) \<noteq> None"
    by blast
  from Cons.IH [OF i1 i2] show ?case
    by (simp add: c ebind_Inr)
qed

lemma ParticleSystem_target_ok:
  "templates_at (templates (ParticleSystem rnd n)) (currentTarget (ParticleSystem rnd n)) \<noteq> None"
  by (rule templates_at_own) (simp add: ParticleSystem_templates ParticleSystem_fields)

text \<open>
  C6. \<open>setExpanded(true)\<close> clears \<open>attracted\<close>, \<open>setAttract(true)\<close> clears \<open>expanded\<close>, and
  after every sequence of calls of \<open>setTarget\<close>, \<open>setExpanded\<close>, \<open>setAttract\<close>,
  \<open>triggerWave\<close> and \<open>update\<close> (and of the wave's timeout callback) on the constructed
  engine, no call throws and \<open>expanded\<close> and \<open>attracted\<close> are not both true.
\<close>

theorem expanded_attracted_exclusive:
  "attracted (setExpanded True s) = Some False
   \<and> expanded (setAttract True s) = False
   \<and> (\<forall>calls. \<exists>s'. run calls (ParticleSystem rnd n) = Inr s'
          \<and> \<not> (expanded s' \<and> attracted s' = Some True))"
proof -
  have i1: "\<not> (expanded (ParticleSystem rnd n) \<and> truthy (attracted (ParticleSystem rnd n)))"
    by (simp add: ParticleSystem_fields)
  have "\<exists>s'. run calls (ParticleSystem rnd n) = Inr s' \<and> \<not> (expanded s' \<and> attracted s' = Some True)"
    for calls
    using run_invariant [OF i1 ParticleSystem_target_ok, of calls] by (auto simp add: truthy_def)
  then show ?thesis
    by (simp add: setExpanded_def setAttract_def Let_def)
qed

subsection \<open>The glow\<close>

lemma glow_step_bounds:
  fixes g t :: real
  assumes "0 \<le> g" "g \<le> 1" "0 \<le> t" "t \<le> 1"
  shows "0 \<le> g + (t - g) * 0.1" and "g + (t - g) * 0.1 \<le> 1"
  using assms by argo+

lemma glow_target_bounds:
  assumes "case h of None \<Rightarrow> True | Some d \<Rightarrow> 0 \<le> proximity d \<and> proximity d \<le> 1"
  shows "0 \<le> glow_target h \<and> glow_target h \<le> 1"
  using assms by (simp add: glow_target_def split: option.splits)

lemma run_updates_glow:
  assumes "\<forall>u \<in> set us. case snd u of None \<Rightarrow> True | Some d \<Rightarrow> 0 \<le> proximity d \<and> proximity d \<le> 1"
    and "templates_at (templates s) (currentTarget s) \<noteq> None"
    and "0 \<le> uGlow s" and "uGlow s \<le> 1"
  shows "\<exists>s'. run (map (\<lambda>u. Update (fst u) (snd u)) us) s = Inr s' \<and> 0 \<le> uGlow s' \<and> uGlow s' \<le> 1"
  using assms
proof (induction us arbitrary: s)
  case Nil
  then show ?case by simp
next
  case (Cons u us)
  from update_ok [OF Cons.prems(2)] obtain s1 where u: "update (fst u) (snd u) s = Inr s1"
    by blast
  from Cons.prems(1) have "0 \<le> glow_target (snd u) \<and> glow_target (snd u) \<le> 1"
    by (simp add: glow_target_bounds)
  with glow_step_bounds [OF Cons.prems(3,4)] update_fields(6) [OF u]
  have g: "0 \<le> uGlow s1" "uGlow s1 \<le> 1"
    by simp_all
  have t: "templates_at (templates s1) (currentTarget s1) \<noteq> None"
    using update_fields(3,4) [OF u] Cons.prems(2) by simp
  from Cons.prems(1) have rest: "\<forall>u \<in> set us. case snd u of None \<Rightarrow> True
      | Some d \<Rightarrow> 0 \<le> proximity d \<and> proximity d \<le> 1"
    by simp
  from Cons.IH [OF rest t g] show ?case
    by (simp add: u ebind_Inr)
qed

text \<open>
  C10. The glow of the constructed engine is 0, and after every prefix of a sequence of
  \<open>update\<close> calls whose hand signals are absent or carry a proximity in \<open>[0, 1]\<close> the
  calls have returned and the glow lies in \<open>[0, 1]\<close>. Each call replaces the glow \<open>g\<close>
  by \<open>g + (target - g) * 0.1\<close>, where \<open>target\<close> is the proximity, or 0 without a signal.
\<close>

theorem glow_in_unit_interval:
  assumes "\<forall>u \<in> set us. case snd u of None \<Rightarrow> True | Some d \<Rightarrow> 0 \<le> proximity d \<and> proximity d \<le> 1"
  shows "(\<forall>k. \<exists>s'. run (map (\<lambda>u. Update (fst u) (snd u)) (take k us)) (ParticleSystem rnd n) = Inr s'
             \<and> 0 \<le> uGlow s' \<and> uGlow s' \<le> 1)
       \<and> (\<forall>time h s s'. update time h s = Inr s' \<longrightarrow>
             uGlow s' = uGlow s + ((case h of None \<Rightarrow> 0 | Some d \<Rightarrow> proximity d) - uGlow s) * 0.1)"
proof -
  have pre: "\<forall>u \<in> set (take k us). case snd u of None \<Rightarrow> True
      | Some d \<Rightarrow> 0 \<le> proximity d \<and> proximity d \<le> 1" for k
    using assms by (meson in_set_takeD)
  have a: "\<exists>s'. run (map (\<lambda>u. Update (fst u) (snd u)) (take k us)) (ParticleSystem rnd n) = Inr s'
             \<and> 0 \<le> uGlow s' \<and> uGlow s' \<le> 1" for k
    by (rule run_updates_glow [OF pre ParticleSystem_target_ok]) (simp_all add: ParticleSystem_fields)
  have b: "uGlow s' = uGlow s + ((case h of None \<Rightarrow> 0 | Some d \<Rightarrow> proximity d) - uGlow s) * 0.1"
    if "update time h s = Inr s'" for time h s s'
    using update_fields(6) [OF that] by (simp add: glow_target_def)
  from a b show ?thesis
    by blast
qed

theorem glow_in_unit_interval_witness:
  "0 \<le> proximity (cursor_at 0) \<and> proximity (cursor_at 0) \<le> 1
   \<and> (\<exists>s'. run [Update 0 None, Update 1 (Some (cursor_at 0))] (ParticleSystem (\<lambda>k. 0) 2) = Inr s'
           \<and> 0 \<le> uGlow s' \<and> uGlow s' \<le> 1)"
proof -
  let ?us = "[(0, None), (1, Some (cursor_at 0))]"
  have p: "0 \<le> proximity (cursor_at 0) \<and> proximity (cursor_at 0) \<le> 1"
    by (simp add: cursor_at_def)
  then have h: "\<forall>u \<in> set ?us. case snd u of None \<Rightarrow> True | Some d \<Rightarrow> 0 \<le> proximity d \<and> proximity d \<le> 1"
    by simp
  from glow_in_unit_interval [OF h, of "\<lambda>k. 0" 2]
  have "\<exists>s'. run (map (\<lambda>u. Update (fst u) (snd u)) (take 2 ?us)) (ParticleSystem (\<lambda>k. 0) 2) = Inr s'
             \<and> 0 \<le> uGlow s' \<and> uGlow s' \<le> 1"
    by blast
  then have "\<exists>s'. run [Update 0 None, Update 1 (Some (cursor_at 0))] (ParticleSystem (\<lambda>k. 0) 2) = Inr s'
             \<and> 0 \<le> uGlow s' \<and> uGlow s' \<le> 1"
    by simp
  with p show ?thesis
    by blast
qed

subsection \<open>Template generation\<close>

lemma fold_fst_length:
  assumes "\<And>i st. length (fst (f i st)) = length (fst st)"
  shows "length (fst (fold f is st)) = length (fst st)"
  by (induction "is" arbitrary: st) (simp_all add: assms)

lemma random_body_length: "length (fst (random_body rnd i st)) = length (fst st)"
  by (cases st) (simp add: random_body_def)

lemma sphere_body_length: "length (fst (sphere_body r rnd i st)) = length (fst st)"
  by (cases st) (simp add: sphere_body_def Let_def)

lemma cube_body_length: "length (fst (cube_body rnd i st)) = length (fst st)"
  by (cases st) (simp add: cube_body_def Let_def)

lemma ring_body_length: "length (fst (ring_body rnd i st)) = length (fst st)"
  by (cases st) (simp add: ring_body_def Let_def)

lemma random_fold_length: "length (fst (fold (random_body rnd) is st)) = length (fst st)"
  by (rule fold_fst_length) (rule random_body_length)

lemma sphere_fold_length: "length (fst (fold (sphere_body r rnd) is st)) = length (fst st)"
  by (rule fold_fst_length) (rule sphere_body_length)

lemma cube_fold_length: "length (fst (fold (cube_body rnd) is st)) = length (fst st)"
  by (rule fold_fst_length) (rule cube_body_length)

lemma ring_fold_length: "length (fst (fold (ring_body rnd) is st)) = length (fst st)"
  by (rule fold_fst_length) (rule ring_body_length)

lemma sphere_radius:
  fixes r phi theta :: real
  shows "(r * sin phi * cos theta) * (r * sin phi * cos theta)
       + (r * sin phi * sin theta) * (r * sin phi * sin theta)
       + (r * cos phi) * (r * cos phi) = r\<^sup>2"
proof -
  have t: "(cos theta)\<^sup>2 + (sin theta)\<^sup>2 = 1" and p: "(sin phi)\<^sup>2 + (cos phi)\<^sup>2 = 1"
    by simp_all
  have "(r * sin phi * cos theta) * (r * sin phi * cos theta)
       + (r * sin phi * sin theta) * (r * sin phi * sin theta)
       + (r * cos phi) * (r * cos phi)
      = r\<^sup>2 * ((sin phi)\<^sup>2 * ((cos theta)\<^sup>2 + (sin theta)\<^sup>2) + (cos phi)\<^sup>2)"
    by algebra
  also have "\<dots> = r\<^sup>2"
    by (simp only: t p mult_1_right)
  finally show ?thesis .
qed

lemma sphere_body_point:
  assumes "i * 3 + 2 < length (fst st)"
  shows "origin_distance (fst (sphere_body r rnd i st)) i = Num \<bar>r\<bar>"
proof (cases st)
  case (Pair buf k)
  with assms have len: "i * 3 + 2 < length buf"
    by simp
  show ?thesis
    using len
    by (simp add: Pair sphere_body_def Let_def origin_distance_def rd_def sphere_radius)
qed

lemma origin_distance_cong:
  assumes "rd buf' (i * 3) = rd buf (i * 3)" and "rd buf' (i * 3 + 1) = rd buf (i * 3 + 1)"
    and "rd buf' (i * 3 + 2) = rd buf (i * 3 + 2)"
  shows "origin_distance buf' i = origin_distance buf i"
  using assms by (simp add: origin_distance_def)

lemma rd_update3_other:
  assumes "i' \<noteq> i" and "j < 3"
  shows "rd (buf[i * 3 := a, i * 3 + 1 := b, i * 3 + 2 := c]) (i' * 3 + j) = rd buf (i' * 3 + j)"
proof -
  from assms have "i' * 3 + j \<noteq> i * 3" "i' * 3 + j \<noteq> i * 3 + 1" "i' * 3 + j \<noteq> i * 3 + 2"
    by presburger+
  then show ?thesis
    by (simp add: rd_def)
qed

lemma origin_distance_update3_other:
  assumes "i' \<noteq> i"
  shows "origin_distance (buf[i * 3 := a, i * 3 + 1 := b, i * 3 + 2 := c]) i' = origin_distance buf i'"
  using rd_update3_other [OF assms, of 0] rd_update3_other [OF assms, of 1]
    rd_update3_other [OF assms, of 2]
  by (intro origin_distance_cong) simp_all

lemma origin_distance_update3_other':
  assumes "i' \<noteq> i"
  shows "origin_distance (buf[i * 3 := a, Suc (i * 3) := b, Suc (Suc (i * 3)) := c]) i' = origin_distance buf i'"
  using origin_distance_update3_other [OF assms, of buf a b c] by simp

lemma sphere_body_other:
  assumes "i' \<noteq> i"
  shows "origin_distance (fst (sphere_body r rnd i st)) i' = origin_distance (fst st) i'"
  by (cases st) (simp add: sphere_body_def Let_def origin_distance_update3_other' [OF assms])

lemma ring_body_other:
  assumes "i' \<noteq> i"
  shows "origin_distance (fst (ring_body rnd i st)) i' = origin_distance (fst st) i'"
  by (cases st) (simp add: ring_body_def Let_def origin_distance_update3_other' [OF assms])

lemma sphere_fold_other:
  assumes "i' \<notin> set is"
  shows "origin_distance (fst (fold (sphere_body r rnd) is st)) i' = origin_distance (fst st) i'"
  using assms by (induction "is" arbitrary: st) (simp_all add: sphere_body_other)

lemma ring_fold_other:
  assumes "i' \<notin> set is"
  shows "origin_distance (fst (fold (ring_body rnd) is st)) i' = origin_distance (fst st) i'"
  using assms by (induction "is" arbitrary: st) (simp_all add: ring_body_other)

lemma sphere_fold_point:
  assumes "i \<in> set is" and "i * 3 + 2 < length (fst st)"
  shows "origin_distance (fst (fold (sphere_body r rnd) is st)) i = Num \<bar>r\<bar>"
  using assms
proof (induction "is" arbitrary: st)
  case Nil
  then show ?case by simp
next
  case (Cons j "is")
  have len: "i * 3 + 2 < length (fst (sphere_body r rnd j st))"
    using Cons.prems(2) by (simp add: sphere_body_length)
  show ?case
  proof (cases "i \<in> set is")
    case True
    from Cons.IH [OF True len] show ?thesis by simp
  next
    case False
    with Cons.prems(1) have ij: "j = i" by simp
    have "origin_distance (fst (fold (sphere_body r rnd) is (sphere_body r rnd i st))) i
        = origin_distance (fst (sphere_body r rnd i st)) i"
      by (rule sphere_fold_other [OF False])
    also have "\<dots> = Num \<bar>r\<bar>"
      by (rule sphere_body_point [OF Cons.prems(2)])
    finally show ?thesis by (simp add: ij)
  qed
qed

lemma Float32Array_length: "length (Float32Array m) = m"
  by (simp add: Float32Array_def)

lemma sphereCount_le: "sphereCount n \<le> n"
proof -
  have "real n * 0.4 \<le> real n" by simp
  then have "\<lfloor>real n * 0.4\<rfloor> \<le> int n" by linarith
  then show ?thesis by (simp add: sphereCount_def)
qed

lemma generateTemplates_shape:
  assumes "generateTemplates rnd n k = ((random, sphere, cube, saturn), k')"
  shows "length random = n * 3" and "length sphere = n * 3"
    and "length cube = n * 3" and "length saturn = n * 3"
    and "i < n \<Longrightarrow> origin_distance sphere i = Num 4"
    and "i < sphereCount n \<Longrightarrow> origin_distance saturn i = Num 2.5"
proof -
  define st1 where "st1 = fold (random_body rnd) [0..<n * 3] (Float32Array (n * 3), k)"
  define st2 where "st2 = fold (sphere_body 4 rnd) [0..<n] (Float32Array (n * 3), snd st1)"
  define st3 where "st3 = fold (cube_body rnd) [0..<n] (Float32Array (n * 3), snd st2)"
  define st4 where "st4 = fold (sphere_body 2.5 rnd) [0..<sphereCount n] (Float32Array (n * 3), snd st3)"
  define st5 where "st5 = fold (ring_body rnd) [sphereCount n..<n] st4"
  have g: "generateTemplates rnd n k = ((fst st1, fst st2, fst st3, fst st5), snd st5)"
    by (simp add: generateTemplates_def st1_def st2_def st3_def st4_def st5_def split: prod.splits)
  with assms have eqs: "random = fst st1" "sphere = fst st2" "cube = fst st3" "saturn = fst st5"
    by simp_all
  show "length random = n * 3"
    by (simp add: eqs st1_def random_fold_length Float32Array_length)
  show "length sphere = n * 3"
    by (simp add: eqs st2_def sphere_fold_length Float32Array_length)
  show "length cube = n * 3"
    by (simp add: eqs st3_def cube_fold_length Float32Array_length)
  have len4: "length (fst st4) = n * 3"
    by (simp add: st4_def sphere_fold_length Float32Array_length)
  show "length saturn = n * 3"
    by (simp add: eqs st5_def ring_fold_length len4)
  show "origin_distance sphere i = Num 4" if "i < n"
  proof -
    from that have "i \<in> set [0..<n]" and "i * 3 + 2 < length (fst (Float32Array (n * 3), snd st1))"
      by (simp_all add: Float32Array_length)
    from sphere_fold_point [OF this, of 4 rnd] show ?thesis
      by (simp add: eqs st2_def)
  qed
  show "origin_distance saturn i = Num 2.5" if "i < sphereCount n"
  proof -
    from that sphereCount_le [of n] have "i < n" by simp
    with that have "i \<in> set [0..<sphereCount n]"
      and "i * 3 + 2 < length (fst (Float32Array (n * 3), snd st3))"
      by (simp_all add: Float32Array_length)
    from sphere_fold_point [OF this, of "2.5" rnd] have "origin_distance (fst st4) i = Num 2.5"
      by (simp add: st4_def)
    moreover from that have "i \<notin> set [sphereCount n..<n]" by simp
    from ring_fold_other [OF this] have "origin_distance (fst st5) i = origin_distance (fst st4) i"
      by (simp add: st5_def)
    ultimately show ?thesis by (simp add: eqs)
  qed
qed

lemma initParticles_body_lengths:
  "length (fst (initParticles_body rnd i st)) = length (fst st)"
  "length (fst (snd (initParticles_body rnd i st))) = length (fst (snd st))"
  "length (fst (snd (snd (initParticles_body rnd i st)))) = length (fst (snd (snd st)))"
  by (cases st; simp add: initParticles_body_def Let_def)+

lemma initParticles_fold_lengths:
  "length (fst (fold (initParticles_body rnd) is st)) = length (fst st)"
  "length (fst (snd (fold (initParticles_body rnd) is st))) = length (fst (snd st))"
  "length (fst (snd (snd (fold (initParticles_body rnd) is st)))) = length (fst (snd (snd st)))"
  by (induction "is" arbitrary: st) (simp_all add: initParticles_body_lengths)

lemma initParticles_lengths:
  assumes "initParticles rnd n k = (p, sc, c, k')"
  shows "length p = n * 3" and "length sc = n" and "length c = n * 3"
proof -
  let ?st = "(Float32Array (n * 3), Float32Array n, Float32Array (n * 3), k)"
  from assms have f: "fold (initParticles_body rnd) [0..<n] ?st = (p, sc, c, k')"
    by (simp add: initParticles_def)
  from initParticles_fold_lengths [of rnd "[0..<n]" ?st]
  show "length p = n * 3" and "length sc = n" and "length c = n * 3"
    by (simp_all add: f Float32Array_length)
qed

lemma ParticleSystem_built:
  "\<exists>p sc c k random sphere cube saturn k'.
     initParticles rnd n 0 = (p, sc, c, k) \<and>
     generateTemplates rnd n k = ((random, sphere, cube, saturn), k') \<and>
     positions (ParticleSystem rnd n) = p \<and> aColor (ParticleSystem rnd n) = c \<and>
     templates (ParticleSystem rnd n) =
       [''random'' \<mapsto> random, ''sphere'' \<mapsto> sphere, ''cube'' \<mapsto> cube, ''saturn'' \<mapsto> saturn]"
  by (auto simp add: ParticleSystem_def split: prod.splits)

text \<open>
  C8. For every particle count \<open>n\<close> (and every random source with values in \<open>[0, 1)\<close>)
  each of the four templates \<open>random\<close>, \<open>sphere\<close>, \<open>cube\<close>, \<open>saturn\<close> of the constructed
  engine is a buffer of \<open>n * 3\<close> numbers; every point of the sphere template lies at
  distance 4 from the origin, and each of the first \<open>\<lfloor>0.4 * n\<rfloor>\<close> points of the saturn
  template at distance 2.5. In exact arithmetic the distances are met exactly.
\<close>

theorem templates_shape:
  assumes "\<forall>j. 0 \<le> rnd j \<and> rnd j < 1"
  shows "(\<forall>name \<in> {''random'', ''sphere'', ''cube'', ''saturn''}.
            \<exists>buf. templates (ParticleSystem rnd n) name = Some buf \<and> length buf = n * 3)
       \<and> (\<forall>buf i. templates (ParticleSystem rnd n) ''sphere'' = Some buf \<and> i < n
            \<longrightarrow> origin_distance buf i = Num 4)
       \<and> (\<forall>buf i. templates (ParticleSystem rnd n) ''saturn'' = Some buf \<and> i < nat \<lfloor>0.4 * real n\<rfloor>
            \<longrightarrow> origin_distance buf i = Num 2.5)"
proof -
  from ParticleSystem_built [of rnd n] obtain k random sphere cube saturn k' where
    g: "generateTemplates rnd n k = ((random, sphere, cube, saturn), k')" and
    t: "templates (ParticleSystem rnd n) =
       [''random'' \<mapsto> random, ''sphere'' \<mapsto> sphere, ''cube'' \<mapsto> cube, ''saturn'' \<mapsto> saturn]"
    by blast
  note shape = generateTemplates_shape [OF g]
  have sc: "nat \<lfloor>0.4 * real n\<rfloor> = sphereCount n"
    by (simp add: sphereCount_def mult.commute)
  have a: "\<forall>name \<in> {''random'', ''sphere'', ''cube'', ''saturn''}.
            \<exists>buf. templates (ParticleSystem rnd n) name = Some buf \<and> length buf = n * 3"
    by (simp add: t shape(1-4))
  have b: "\<forall>buf i. templates (ParticleSystem rnd n) ''sphere'' = Some buf \<and> i < n
            \<longrightarrow> origin_distance buf i = Num 4"
    by (simp add: t shape(5))
  have c: "\<forall>buf i. templates (ParticleSystem rnd n) ''saturn'' = Some buf \<and> i < nat \<lfloor>0.4 * real n\<rfloor>
            \<longrightarrow> origin_distance buf i = Num 2.5"
  proof (intro allI impI)
    fix buf i
    assume h: "templates (ParticleSystem rnd n) ''saturn'' = Some buf \<and> i < nat \<lfloor>0.4 * real n\<rfloor>"
    then have "buf = saturn"
      by (simp add: t)
    moreover from h have "i < sphereCount n"
      by (simp only: sc)
    ultimately show "origin_distance buf i = Num 2.5"
      using shape(6) by simp
  qed
  from a b c show ?thesis
    by blast
qed

theorem templates_shape_witness:
  "(\<forall>j. 0 \<le> (\<lambda>j::nat. 0::real) j \<and> (\<lambda>j::nat. 0::real) j < 1)
   \<and> (\<exists>buf. templates (ParticleSystem (\<lambda>j. 0) 5) ''cube'' = Some buf \<and> length buf = 15)
   \<and> (\<exists>buf. templates (ParticleSystem (\<lambda>j. 0) 5) ''sphere'' = Some buf \<and> (4::nat) < 5
         \<and> origin_distance buf 4 = Num 4)
   \<and> (\<exists>buf. templates (ParticleSystem (\<lambda>j. 0) 5) ''saturn'' = Some buf
         \<and> (1::nat) < nat \<lfloor>0.4 * real 5\<rfloor> \<and> origin_distance buf 1 = Num 2.5)"
proof -
  have r: "\<forall>j. 0 \<le> (\<lambda>j::nat. 0::real) j \<and> (\<lambda>j::nat. 0::real) j < 1"
    by simp
  have i: "(4::nat) < 5" and j: "(1::nat) < nat \<lfloor>0.4 * real 5\<rfloor>"
    by simp_all
  note th = templates_shape [OF r, of 5]
  from th obtain cube where "templates (ParticleSystem (\<lambda>j. 0) 5) ''cube'' = Some cube" "length cube = 15"
    by auto
  moreover from th obtain sphere where s: "templates (ParticleSystem (\<lambda>j. 0) 5) ''sphere'' = Some sphere"
    by auto
  moreover from th s i have "origin_distance sphere 4 = Num 4"
    by blast
  moreover from th obtain saturn where t: "templates (ParticleSystem (\<lambda>j. 0) 5) ''saturn'' = Some saturn"
    by auto
  moreover from th t j have "origin_distance saturn 1 = Num 2.5"
    by blast
  ultimately show ?thesis
    using r i j by blast
qed

subsection \<open>The loop body on one particle\<close>

lemma rd_update: "rd (xs[k := v]) j = (if j = k \<and> k < length xs then v else rd xs j)"
  by (simp add: rd_def)

lemma particle_lerp_positions:
  "positions (particle_lerp (tx, ty, tz) i s) =
     (positions s)[i * 3 := ease_step (rd (positions s) (i * 3)) tx,
                   i * 3 + 1 := ease_step (rd (positions s) (i * 3 + 1)) ty,
                   i * 3 + 2 := ease_step (rd (positions s) (i * 3 + 2)) tz]"
  by (simp add: particle_lerp_def Let_def ease_step_def rd_update)

lemma particle_lerp_rest:
  "particle_lerp t i s = s\<lparr>positions := positions (particle_lerp t i s)\<rparr>"
  by (cases t) (simp add: particle_lerp_def Let_def)

lemma particle_repel_positions:
  "positions (particle_repel (Some rp) i s) =
     (let p = (rd (positions s) (i * 3), rd (positions s) (i * 3 + 1), rd (positions s) (i * 3 + 2));
          dsq = cursor_distSq rp p
      in if \<not> truthy (attracted s) \<and> jlt dsq (Num 4)
         then (positions s)
                [i * 3 := jadd (fst p) (jmul (jsub (fst p) (Num (pt_x rp))) (repel_force dsq)),
                 i * 3 + 1 := jadd (fst (snd p)) (jmul (jsub (fst (snd p)) (Num (pt_y rp))) (repel_force dsq)),
                 i * 3 + 2 := jadd (snd (snd p)) (jmul (jsub (snd (snd p)) (Num (pt_z rp))) (repel_force dsq))]
         else positions s)"
  by (simp add: particle_repel_def Let_def cursor_distSq_def repel_force_def rd_update)

lemma particle_repel_aColor:
  "aColor (particle_repel (Some rp) i s) =
     (let p = (rd (positions s) (i * 3), rd (positions s) (i * 3 + 1), rd (positions s) (i * 3 + 2));
          dsq = cursor_distSq rp p
      in if truthy (attracted s) then aColor s
         else if jlt dsq (Num 4) then (aColor s)[i * 3 := Num 1]
         else if jgt (rd (aColor s) (i * 3)) (Num 0.5)
           then (aColor s)[i * 3 := jsub (rd (aColor s) (i * 3)) (Num 0.02)]
           else aColor s)"
  by (simp add: particle_repel_def Let_def cursor_distSq_def repel_force_def rd_update)

lemma particle_repel_None: "particle_repel None i s = s"
  by (simp add: particle_repel_def)

lemma particle_repel_rest:
  "particle_repel rp i s =
     s\<lparr>positions := positions (particle_repel rp i s), aColor := aColor (particle_repel rp i s)\<rparr>"
  by (rule particle_repel_eq)

lemma particle_body_agree_other:
  assumes "i' \<noteq> i"
  shows "agree_on i s (particle_body tp rp ap i' s)"
proof -
  from assms have ne: "i * 3 \<noteq> i' * 3" "i * 3 \<noteq> i' * 3 + 1" "i * 3 \<noteq> i' * 3 + 2"
    "i * 3 + 1 \<noteq> i' * 3" "i * 3 + 1 \<noteq> i' * 3 + 1" "i * 3 + 1 \<noteq> i' * 3 + 2"
    "i * 3 + 2 \<noteq> i' * 3" "i * 3 + 2 \<noteq> i' * 3 + 1" "i * 3 + 2 \<noteq> i' * 3 + 2"
    by presburger+
  obtain tx ty tz where t: "particle_target tp ap i' s = (tx, ty, tz)"
    by (cases "particle_target tp ap i' s") auto
  let ?l = "particle_lerp (tx, ty, tz) i' s"
  have l: "agree_on i s ?l"
    using ne
    by (subst particle_lerp_rest) (simp add: agree_on_def particle_lerp_positions rd_update)
  have r: "agree_on i ?l (particle_repel rp i' ?l)"
  proof (cases rp)
    case None
    then show ?thesis by (simp add: particle_repel_None agree_on_def)
  next
    case (Some p)
    show ?thesis
      using ne
      by (subst particle_repel_rest)
        (simp add: Some agree_on_def particle_repel_positions particle_repel_aColor rd_update Let_def)
  qed
  from l r show ?thesis
    by (simp add: particle_body_def t agree_on_def)
qed

lemma agree_on_refl: "agree_on i s s"
  by (simp add: agree_on_def)

lemma agree_on_trans: "agree_on i s s' \<Longrightarrow> agree_on i s' s'' \<Longrightarrow> agree_on i s s''"
  by (simp add: agree_on_def)

lemma particle_target_agree:
  assumes "agree_on i s s'"
  shows "particle_target tp ap i s' = particle_target tp ap i s"
  using assms by (simp add: particle_target_def agree_on_def Let_def cong: if_cong)

lemma particle_lerp_agree:
  assumes "agree_on i s s'"
  shows "agree_on i (particle_lerp t i s) (particle_lerp t i s')"
proof (cases t)
  case (fields tx ty tz)
  have fs: "expanded (particle_lerp t i s) = expanded s" "isWaving (particle_lerp t i s) = isWaving s"
    "wavePhase (particle_lerp t i s) = wavePhase s" "attracted (particle_lerp t i s) = attracted s"
    "aColor (particle_lerp t i s) = aColor s" for s
    by (subst particle_lerp_rest, simp)+
  from assms show ?thesis
    by (simp add: agree_on_def fs) (simp add: fields particle_lerp_positions rd_update)
qed

lemma particle_repel_agree:
  assumes "agree_on i s s'"
  shows "agree_on i (particle_repel rp i s) (particle_repel rp i s')"
proof (cases rp)
  case None
  with assms show ?thesis by (simp add: particle_repel_None)
next
  case (Some p)
  have fs: "expanded (particle_repel rp i s) = expanded s" "isWaving (particle_repel rp i s) = isWaving s"
    "wavePhase (particle_repel rp i s) = wavePhase s" "attracted (particle_repel rp i s) = attracted s" for s
    by (subst particle_repel_rest, simp)+
  from assms show ?thesis
    by (simp add: agree_on_def fs)
      (simp add: Some particle_repel_positions particle_repel_aColor rd_update Let_def)
qed

lemma particle_body_agree:
  assumes "agree_on i s s'"
  shows "agree_on i (particle_body tp rp ap i s) (particle_body tp rp ap i s')"
  unfolding particle_body_def particle_target_agree [OF assms]
  by (intro particle_repel_agree particle_lerp_agree assms)

lemma particle_loop_agree_other:
  assumes "i \<notin> set is"
  shows "agree_on i s (fold (particle_body tp rp ap) is s)"
  using assms
proof (induction "is" arbitrary: s)
  case Nil
  then show ?case by (simp add: agree_on_refl)
next
  case (Cons j "is")
  then have "agree_on i s (particle_body tp rp ap j s)"
    by (simp add: particle_body_agree_other)
  moreover from Cons have "agree_on i (particle_body tp rp ap j s)
      (fold (particle_body tp rp ap) is (particle_body tp rp ap j s))"
    by simp
  ultimately show ?case
    by (simp add: agree_on_trans)
qed

lemma particle_loop_agree:
  assumes "i \<in> set is" and "distinct is"
  shows "agree_on i (particle_body tp rp ap i s) (fold (particle_body tp rp ap) is s)"
  using assms
proof (induction "is" arbitrary: s)
  case Nil
  then show ?case by simp
next
  case (Cons j "is")
  show ?case
  proof (cases "j = i")
    case True
    with Cons.prems have "i \<notin> set is" by simp
    from particle_loop_agree_other [OF this] True show ?thesis
      by simp
  next
    case False
    with Cons.prems have mem: "i \<in> set is" and d: "distinct is"
      by simp_all
    from False have "agree_on i s (particle_body tp rp ap j s)"
      by (simp add: particle_body_agree_other)
    then have "agree_on i (particle_body tp rp ap i s) (particle_body tp rp ap i (particle_body tp rp ap j s))"
      by (rule particle_body_agree)
    moreover from Cons.IH [OF mem d]
    have "agree_on i (particle_body tp rp ap i (particle_body tp rp ap j s))
        (fold (particle_body tp rp ap) is (particle_body tp rp ap j s))" .
    ultimately show ?thesis
      by (simp add: agree_on_trans)
  qed
qed

text \<open>After the whole loop, particle \<open>i\<close> is as the loop body for \<open>i\<close> alone leaves it.\<close>

lemma update_particle:
  assumes "templates_at (templates s) (currentTarget s) = Some tp" and "i < count s"
  shows "\<exists>s'. update time h s = Inr s' \<and>
           agree_on i (particle_body tp (map_option position h) (attract_pos h) i (before_loop time h s)) s'"
proof -
  let ?F = "particle_body tp (map_option position h) (attract_pos h)"
  let ?S = "fold ?F [0..<count s] (before_loop time h s)"
  have u: "update time h s = Inr (?S\<lparr>positionNeedsUpdate := True, aColorNeedsUpdate := True\<rparr>)"
    by (simp add: update_unfold assms(1))
  from assms(2) have "i \<in> set [0..<count s]" and "distinct [0..<count s]"
    by simp_all
  from particle_loop_agree [OF this]
  have "agree_on i (?F i (before_loop time h s)) ?S" .
  then have "agree_on i (?F i (before_loop time h s))
      (?S\<lparr>positionNeedsUpdate := True, aColorNeedsUpdate := True\<rparr>)"
    by (simp add: agree_on_def)
  with u show ?thesis
    by blast
qed

text \<open>The loop body on particle \<open>i\<close>, when its slots exist.\<close>

lemma particle_lerp_slots:
  assumes "i * 3 + 2 < length (positions s)"
  shows "(rd (positions (particle_lerp (particle_target tp ap i s) i s)) (i * 3),
          rd (positions (particle_lerp (particle_target tp ap i s) i s)) (i * 3 + 1),
          rd (positions (particle_lerp (particle_target tp ap i s) i s)) (i * 3 + 2))
         = integrated tp ap i s"
proof -
  obtain tx ty tz where t: "particle_target tp ap i s = (tx, ty, tz)"
    by (cases "particle_target tp ap i s") auto
  from assms show ?thesis
    by (simp add: t integrated_def particle_lerp_positions rd_update)
qed

lemma particle_body_None:
  assumes "i * 3 + 2 < length (positions s)"
  shows "(rd (positions (particle_body tp None ap i s)) (i * 3),
          rd (positions (particle_body tp None ap i s)) (i * 3 + 1),
          rd (positions (particle_body tp None ap i s)) (i * 3 + 2)) = integrated tp ap i s"
    and "rd (aColor (particle_body tp None ap i s)) (i * 3) = rd (aColor s) (i * 3)"
proof -
  show "(rd (positions (particle_body tp None ap i s)) (i * 3),
          rd (positions (particle_body tp None ap i s)) (i * 3 + 1),
          rd (positions (particle_body tp None ap i s)) (i * 3 + 2)) = integrated tp ap i s"
    using particle_lerp_slots [OF assms] by (simp add: particle_body_def particle_repel_None)
  have "aColor (particle_lerp t i s) = aColor s" for t
    by (subst particle_lerp_rest) simp
  then show "rd (aColor (particle_body tp None ap i s)) (i * 3) = rd (aColor s) (i * 3)"
    by (simp add: particle_body_def particle_repel_None)
qed

lemma particle_body_Some:
  fixes tp rp ap i s
  defines "b \<equiv> particle_body tp (Some rp) ap i s"
    and "p \<equiv> integrated tp ap i s"
  defines "dsq \<equiv> cursor_distSq rp p"
  assumes "i * 3 + 2 < length (positions s)" and "i * 3 < length (aColor s)"
  shows "(rd (positions b) (i * 3), rd (positions b) (i * 3 + 1), rd (positions b) (i * 3 + 2)) =
           (if \<not> truthy (attracted s) \<and> jlt dsq (Num 4)
            then (jadd (fst p) (jmul (jsub (fst p) (Num (pt_x rp))) (repel_force dsq)),
                  jadd (fst (snd p)) (jmul (jsub (fst (snd p)) (Num (pt_y rp))) (repel_force dsq)),
                  jadd (snd (snd p)) (jmul (jsub (snd (snd p)) (Num (pt_z rp))) (repel_force dsq)))
            else p)"
    and "rd (aColor b) (i * 3) =
           (if truthy (attracted s) then rd (aColor s) (i * 3)
            else if jlt dsq (Num 4) then Num 1
            else if jgt (rd (aColor s) (i * 3)) (Num 0.5)
              then jsub (rd (aColor s) (i * 3)) (Num 0.02)
              else rd (aColor s) (i * 3))"
proof -
  let ?l = "particle_lerp (particle_target tp ap i s) i s"
  have fs: "attracted ?l = attracted s" "aColor ?l = aColor s"
    by (subst particle_lerp_rest, simp)+
  have len: "length (positions ?l) = length (positions s)"
  proof -
    obtain tx ty tz where t: "particle_target tp ap i s = (tx, ty, tz)"
      by (cases "particle_target tp ap i s") auto
    show ?thesis by (simp add: t particle_lerp_positions)
  qed
  have sl: "(rd (positions ?l) (i * 3), rd (positions ?l) (i * 3 + 1), rd (positions ?l) (i * 3 + 2)) = p"
    unfolding p_def by (rule particle_lerp_slots [OF assms(4)])
  then have sl': "rd (positions ?l) (i * 3) = fst p" "rd (positions ?l) (i * 3 + 1) = fst (snd p)"
    "rd (positions ?l) (i * 3 + 2) = snd (snd p)"
    by (metis fst_conv, metis fst_conv snd_conv, metis snd_conv)
  have b: "b = particle_repel (Some rp) i ?l"
    by (simp add: b_def particle_body_def)
  show "(rd (positions b) (i * 3), rd (positions b) (i * 3 + 1), rd (positions b) (i * 3 + 2)) =
           (if \<not> truthy (attracted s) \<and> jlt dsq (Num 4)
            then (jadd (fst p) (jmul (jsub (fst p) (Num (pt_x rp))) (repel_force dsq)),
                  jadd (fst (snd p)) (jmul (jsub (fst (snd p)) (Num (pt_y rp))) (repel_force dsq)),
                  jadd (snd (snd p)) (jmul (jsub (snd (snd p)) (Num (pt_z rp))) (repel_force dsq)))
            else p)"
    using assms(4) sl
    by (simp add: b particle_repel_positions Let_def sl [symmetric] dsq_def fs len rd_update)
  show "rd (aColor b) (i * 3) =
           (if truthy (attracted s) then rd (aColor s) (i * 3)
            else if jlt dsq (Num 4) then Num 1
            else if jgt (rd (aColor s) (i * 3)) (Num 0.5)
              then jsub (rd (aColor s) (i * 3)) (Num 0.02)
              else rd (aColor s) (i * 3))"
    using assms(5)
    by (simp add: b particle_repel_aColor Let_def sl [symmetric] dsq_def fs rd_update)
qed

subsection \<open>One call of \<open>update\<close> on one particle\<close>

lemma particle_body_slots:
  assumes "i * 3 + 2 < length (positions s)" and "i * 3 < length (aColor s)"
  shows "(rd (positions (particle_body tp rp ap i s)) (i * 3),
          rd (positions (particle_body tp rp ap i s)) (i * 3 + 1),
          rd (positions (particle_body tp rp ap i s)) (i * 3 + 2))
         = moved rp (truthy (attracted s)) (integrated tp ap i s)"
    and "rd (aColor (particle_body tp rp ap i s)) (i * 3)
         = red_after rp (truthy (attracted s)) (integrated tp ap i s) (rd (aColor s) (i * 3))"
proof -
  show "(rd (positions (particle_body tp rp ap i s)) (i * 3),
          rd (positions (particle_body tp rp ap i s)) (i * 3 + 1),
          rd (positions (particle_body tp rp ap i s)) (i * 3 + 2))
         = moved rp (truthy (attracted s)) (integrated tp ap i s)"
  proof (cases rp)
    case None
    with particle_body_None(1) [OF assms(1)] show ?thesis
      by (simp add: moved_def)
  next
    case (Some c)
    with particle_body_Some(1) [OF assms] show ?thesis
      by (simp add: moved_def Let_def)
  qed
  show "rd (aColor (particle_body tp rp ap i s)) (i * 3)
         = red_after rp (truthy (attracted s)) (integrated tp ap i s) (rd (aColor s) (i * 3))"
  proof (cases rp)
    case None
    with particle_body_None(2) [OF assms(1)] show ?thesis
      by (simp add: red_after_def)
  next
    case (Some c)
    with particle_body_Some(2) [OF assms] show ?thesis
      by (simp add: red_after_def)
  qed
qed

lemma particle_body_lengths:
  "length (positions (particle_body tp rp ap i s)) = length (positions s)"
  "length (aColor (particle_body tp rp ap i s)) = length (aColor s)"
proof -
  obtain tx ty tz where t: "particle_target tp ap i s = (tx, ty, tz)"
    by (cases "particle_target tp ap i s") auto
  let ?l = "particle_lerp (tx, ty, tz) i s"
  have l: "length (positions ?l) = length (positions s)" "aColor ?l = aColor s"
    by (simp add: particle_lerp_positions, subst particle_lerp_rest, simp)
  show "length (positions (particle_body tp rp ap i s)) = length (positions s)"
    by (cases rp) (simp_all add: particle_body_def t particle_repel_None particle_repel_positions
        Let_def l)
  show "length (aColor (particle_body tp rp ap i s)) = length (aColor s)"
    by (cases rp) (simp_all add: particle_body_def t particle_repel_None particle_repel_aColor
        Let_def l)
qed

lemma update_slots:
  assumes "length (positions s) = count s * 3" and "length (aColor s) = count s * 3"
    and "templates_at (templates s) (currentTarget s) = Some tp" and "i < count s"
  shows "\<exists>s'. update time h s = Inr s'
         \<and> (rd (positions s') (i * 3), rd (positions s') (i * 3 + 1), rd (positions s') (i * 3 + 2))
             = moved (map_option position h) (truthy (attracted s))
                 (integrated tp (attract_pos h) i (before_loop time h s))
         \<and> rd (aColor s') (i * 3)
             = red_after (map_option position h) (truthy (attracted s))
                 (integrated tp (attract_pos h) i (before_loop time h s)) (rd (aColor s) (i * 3))
         \<and> length (positions s') = count s * 3 \<and> length (aColor s') = count s * 3"
proof -
  let ?s1 = "before_loop time h s"
  let ?b = "particle_body tp (map_option position h) (attract_pos h) i ?s1"
  from update_particle [OF assms(3,4)] obtain s' where
    u: "update time h s = Inr s'" and a: "agree_on i ?b s'"
    by blast
  from assms(1,2,4) have r: "i * 3 + 2 < length (positions ?s1)" "i * 3 < length (aColor ?s1)"
    by (simp_all add: before_loop_fields)
  note sl = particle_body_slots [OF r, of tp "map_option position h" "attract_pos h"]
  have lb: "length (positions ?b) = length (positions ?s1)" "length (aColor ?b) = length (aColor ?s1)"
    by (rule particle_body_lengths)+
  from a sl lb assms(1,2) show ?thesis
    by (intro exI [of _ s']) (simp add: u agree_on_def before_loop_fields)
qed

subsection \<open>The engine with one particle\<close>

lemma upt_0_3: "[0..<3] = [0, 1, 2]"
  by (simp add: upt_rec)

lemma replicate_3: "replicate 3 x = [x, x, x]"
  by (simp add: numeral_3_eq_3)

lemma Float32Array_3: "Float32Array 3 = [Num 0, Num 0, Num 0]"
  by (simp add: Float32Array_def replicate_3)

lemma initParticles_one:
  "initParticles rnd (Suc 0) 0 =
     ([Num ((rnd 0 - 0.5) * 10), Num ((rnd 1 - 0.5) * 10), Num ((rnd 2 - 0.5) * 10)],
      [Num (rnd 3)],
      [Num (0.2 + rnd 4 * 0.3), Num (0.4 + rnd 5 * 0.4), Num (0.8 + rnd 6 * 0.2)],
      7)"
  by (simp add: initParticles_def initParticles_body_def Float32Array_def replicate_3 Let_def
      numeral_2_eq_2)

lemma random_template_one:
  "fold (random_body rnd) [0..<3] (Float32Array 3, k) =
     ([Num ((rnd k - 0.5) * 12), Num ((rnd (k + 1) - 0.5) * 12), Num ((rnd (k + 2) - 0.5) * 12)], k + 3)"
  by (simp add: random_body_def upt_0_3 Float32Array_3)

lemma ParticleSystem_one:
  "positions (ParticleSystem rnd (Suc 0)) =
     [Num ((rnd 0 - 0.5) * 10), Num ((rnd 1 - 0.5) * 10), Num ((rnd 2 - 0.5) * 10)]"
  "aColor (ParticleSystem rnd (Suc 0)) =
     [Num (0.2 + rnd 4 * 0.3), Num (0.4 + rnd 5 * 0.4), Num (0.8 + rnd 6 * 0.2)]"
  "templates (ParticleSystem rnd (Suc 0)) ''random'' =
     Some [Num ((rnd 7 - 0.5) * 12), Num ((rnd 8 - 0.5) * 12), Num ((rnd 9 - 0.5) * 12)]"
  by (simp_all add: ParticleSystem_def initParticles_one generateTemplates_def random_template_one
      split: prod.splits)

lemma demo_engine_fields:
  "count demo_engine = 1" "expanded demo_engine = False" "attracted demo_engine = None"
  "isWaving demo_engine = False" "currentTarget demo_engine = ''random''"
  "positions demo_engine = [Num 0, Num 0, Num 0]"
  "aColor demo_engine = [Num 0.35, Num 0.6, Num 0.9]"
  "templates demo_engine ''random'' = Some [Num 0, Num 0, Num 0]"
  by (simp_all add: demo_engine_def ParticleSystem_fields ParticleSystem_one)


subsection \<open>The loop body with every flag false\<close>

lemma integrated_plain:
  assumes "\<not> expanded s" and "\<not> isWaving s" and "\<not> truthy (attracted s)"
  shows "integrated tp ap i s =
           (ease_step (rd (positions s) (i * 3)) (tget tp (i * 3)),
            ease_step (rd (positions s) (i * 3 + 1)) (tget tp (i * 3 + 1)),
            ease_step (rd (positions s) (i * 3 + 2)) (tget tp (i * 3 + 2)))"
  using assms by (simp add: integrated_def particle_target_def Let_def)

subsection \<open>The red channel\<close>



subsection \<open>The concrete engines\<close>

lemma rd_triple:
  "rd [a, b, c] 0 = a" "rd [a, b, c] (Suc 0) = b" "rd [a, b, c] (Suc (Suc 0)) = c"
  by (simp_all add: rd_def)




lemma demo_engine_resting:
  "count demo_engine = 1" "\<not> expanded demo_engine" "\<not> isWaving demo_engine"
  "\<not> truthy (attracted demo_engine)"
  "length (positions demo_engine) = 3" "length (aColor demo_engine) = 3"
  "templates demo_engine (currentTarget demo_engine) = Some [Num 0, Num 0, Num 0]"
  "rd (positions demo_engine) 0 = Num 0" "rd (positions demo_engine) 1 = Num 0"
  "rd (positions demo_engine) 2 = Num 0"
  by (simp_all add: demo_engine_fields truthy_def rd_def)



lemma projr_update:
  assumes "update time h s = Inr s'"
  shows "\<not> isl (update time h s)" and "projr (update time h s) = s'"
  using assms by simp_all



subsection \<open>Repulsion\<close>









subsection \<open>Buffer lengths\<close>

text \<open>
  The buffers of every engine reached from the constructor have length \<open>count * 3\<close>: the
  constructor allocates them so, and no call resizes them.
\<close>

lemma ParticleSystem_lengths:
  "length (positions (ParticleSystem rnd n)) = count (ParticleSystem rnd n) * 3"
  "length (aColor (ParticleSystem rnd n)) = count (ParticleSystem rnd n) * 3"
proof -
  from ParticleSystem_built [of rnd n] obtain p sc c k where
    i: "initParticles rnd n 0 = (p, sc, c, k)" and
    f: "positions (ParticleSystem rnd n) = p" "aColor (ParticleSystem rnd n) = c"
    by blast
  from initParticles_lengths [OF i] f
  show "length (positions (ParticleSystem rnd n)) = count (ParticleSystem rnd n) * 3"
    "length (aColor (ParticleSystem rnd n)) = count (ParticleSystem rnd n) * 3"
    by (simp_all add: ParticleSystem_fields)
qed

lemma particle_loop_lengths:
  "length (positions (fold (particle_body tp rp ap) is s)) = length (positions s)"
  "length (aColor (fold (particle_body tp rp ap) is s)) = length (aColor s)"
  by (induction "is" arbitrary: s) (simp_all add: particle_body_lengths)

lemma update_lengths:
  assumes "update time h s = Inr s'"
  shows "length (positions s') = length (positions s)" and "length (aColor s') = length (aColor s)"
  using assms
  by (auto simp add: update_unfold particle_loop_lengths before_loop_fields
      split: option.splits if_splits)

lemma do_call_lengths:
  assumes "do_call c s = Inr s'"
    and "length (positions s) = count s * 3" and "length (aColor s) = count s * 3"
  shows "length (positions s') = count s' * 3 \<and> length (aColor s') = count s' * 3"
proof (cases c)
  case (Update time h)
  with assms(1) have u: "update time h s = Inr s'"
    by simp
  from update_lengths [OF u] update_fields(5) [OF u] assms(2,3) show ?thesis
    by simp
qed (use assms in \<open>auto simp add: setTarget_def setExpanded_def setAttract_def triggerWave_def
      waveTimeout_def Let_def split: option.splits\<close>)

lemma run_lengths:
  assumes "run cs s = Inr s'"
    and "length (positions s) = count s * 3" and "length (aColor s) = count s * 3"
  shows "length (positions s') = count s' * 3 \<and> length (aColor s') = count s' * 3"
  using assms
proof (induction cs arbitrary: s)
  case Nil
  then show ?case by simp
next
  case (Cons c cs)
  from Cons.prems(1) obtain s1 where c: "do_call c s = Inr s1" and r: "run cs s1 = Inr s'"
    by (cases "do_call c s") (simp_all add: ebind_def)
  from do_call_lengths [OF c Cons.prems(2,3)] Cons.IH [OF r] show ?case
    by blast
qed

lemma reachable_lengths:
  assumes "run cs (ParticleSystem rnd n) = Inr s'"
  shows "length (positions s') = count s' * 3 \<and> length (aColor s') = count s' * 3"
  using run_lengths [OF assms ParticleSystem_lengths] .

subsection \<open>A target that is no template\<close>

lemma setTarget_constructor_update:
  "\<not> isl (update 0 None (setTarget ''constructor'' demo_engine))"
  "rd (positions (projr (update 0 None (setTarget ''constructor'' demo_engine)))) 0 = NaN"
proof -
  let ?s = "setTarget ''constructor'' demo_engine"
  have out: "''constructor'' \<notin> dom (templates demo_engine)"
    by (simp add: demo_engine_def ParticleSystem_templates)
  have inh: "''constructor'' \<in> set object_prototype_keys"
    by (simp add: object_prototype_keys_def)
  have s: "?s = demo_engine\<lparr>currentTarget := ''constructor'', expanded := False, attracted := Some False\<rparr>"
    by (rule setTarget_inherited [OF out inh])
  have tp: "templates_at (templates ?s) (currentTarget ?s) = Some Inherited"
    using out by (simp add: s templates_at_def inh domIff)
  have l: "length (positions ?s) = count ?s * 3" "length (aColor ?s) = count ?s * 3" and i: "0 < count ?s"
    by (simp_all add: s demo_engine_resting)
  have fl: "\<not> expanded (before_loop 0 None ?s)" "\<not> isWaving (before_loop 0 None ?s)"
    "\<not> truthy (attracted (before_loop 0 None ?s))"
    by (simp_all add: s before_loop_fields demo_engine_resting truthy_def)
  from update_slots [OF l tp i, of 0 None] obtain s' where
    u: "update 0 None ?s = Inr s'" and
    sl: "(rd (positions s') (0 * 3), rd (positions s') (0 * 3 + 1), rd (positions s') (0 * 3 + 2))
             = moved (map_option position (None :: hand_data option)) (truthy (attracted ?s))
                 (integrated Inherited (attract_pos None) 0 (before_loop 0 None ?s))"
    by blast
  have "integrated Inherited (attract_pos None) 0 (before_loop 0 None ?s) = (NaN, NaN, NaN)"
    unfolding integrated_plain [OF fl]
    by (simp add: before_loop_fields ease_step_def s demo_engine_fields rd_triple numeral_2_eq_2)
  with sl have "rd (positions s') 0 = NaN"
    by (simp add: moved_def)
  with projr_update [OF u]
  show "\<not> isl (update 0 None ?s)" "rd (positions (projr (update 0 None ?s))) 0 = NaN"
    by simp_all
qed

text \<open>
  C5. A name that is no generated template but a member of \<^verbatim>\<open>Object.prototype\<close> passes
  the test \<^verbatim>\<open>if (this.templates[templateName])\<close>: on the freshly constructed engine
  \<open>setTarget ''constructor''\<close> replaces the current template \<open>random\<close> by \<open>constructor\<close>
  and assigns \<open>attracted\<close>. The next \<open>update\<close> then reads its target coordinates from a
  function object: on the one-particle engine the first coordinate of the particle,
  0 before the call, is \<open>NaN\<close> after it. For a name that is neither a template nor such
  a member the call changes nothing (\<open>setTarget_unknown\<close>), and for a template it sets the
  target and clears both flags (\<open>setTarget_known\<close>).
\<close>

theorem setTarget_inherited_name:
  "''constructor'' \<notin> dom (templates (ParticleSystem rnd n))
   \<and> currentTarget (ParticleSystem rnd n) = ''random''
   \<and> attracted (ParticleSystem rnd n) = None
   \<and> currentTarget (setTarget ''constructor'' (ParticleSystem rnd n)) = ''constructor''
   \<and> attracted (setTarget ''constructor'' (ParticleSystem rnd n)) = Some False
   \<and> rd (positions demo_engine) 0 = Num 0
   \<and> \<not> isl (update 0 None (setTarget ''constructor'' demo_engine))
   \<and> rd (positions (projr (update 0 None (setTarget ''constructor'' demo_engine)))) 0 = NaN"
proof -
  have out: "''constructor'' \<notin> dom (templates (ParticleSystem rnd n))"
    by (simp add: ParticleSystem_templates)
  have inh: "''constructor'' \<in> set object_prototype_keys"
    by (simp add: object_prototype_keys_def)
  show ?thesis
    using out setTarget_constructor_update
    by (simp add: setTarget_inherited [OF out inh] ParticleSystem_fields demo_engine_resting)
qed

subsection \<open>Easing towards the template, with rounding\<close>

lemma floor_log2_eq:
  assumes "power_int 2 e \<le> \<bar>x\<bar>" and "\<bar>x\<bar> < power_int 2 (e + 1)"
  shows "\<lfloor>log 2 \<bar>x\<bar>\<rfloor> = e"
proof -
  have "(0::real) < power_int 2 e" by simp
  with assms(1) have pos: "0 < \<bar>x\<bar>" by linarith
  have "2 powr (of_int e) = (power_int 2 e :: real)"
    by (rule powr_real_of_int') simp_all
  moreover have "2 powr (of_int e + 1) = (power_int 2 (e + 1) :: real)"
    using powr_real_of_int' [of 2 "e + 1"] by simp
  ultimately show ?thesis
    using assms floor_log_eq_powr_iff [OF pos, of 2 e] by simp
qed

lemma exponent_bounds:
  assumes "x \<noteq> 0"
  shows "power_int 2 (exponent x) \<le> \<bar>x\<bar> \<and> \<bar>x\<bar> < power_int 2 (exponent x + 1)"
proof (cases "1 \<le> \<bar>x\<bar>")
  case True
  define n where "n = \<lfloor>\<bar>x\<bar>\<rfloor>"
  define b where "b = bitlen n"
  have n: "1 \<le> n" using True by (simp add: n_def)
  then have bb: "2 ^ nat (b - 1) \<le> n" "n < 2 ^ nat b"
    using bitlen_bounds [of n] by (simp_all add: b_def)
  have b: "1 \<le> b"
  proof (rule ccontr)
    assume "\<not> 1 \<le> b"
    then have "nat b = 0" by simp
    with bb(2) n show False by simp
  qed
  have e: "exponent x = b - 1"
    using True by (simp add: exponent_def b_def n_def)
  have lo: "real_of_int n \<le> \<bar>x\<bar>" and hi: "\<bar>x\<bar> < real_of_int n + 1"
    by (simp_all add: n_def)
  have "(2::real) ^ nat (b - 1) = of_int (2 ^ nat (b - 1))" by simp
  also have "\<dots> \<le> of_int n" using bb(1) by (simp only: of_int_le_iff)
  finally have 1: "(2::real) ^ nat (b - 1) \<le> \<bar>x\<bar>" using lo by linarith
  have "n + 1 \<le> 2 ^ nat b" using bb(2) by simp
  then have "real_of_int (n + 1) \<le> of_int (2 ^ nat b)" by (simp only: of_int_le_iff)
  also have "\<dots> = 2 ^ nat b" by simp
  finally have 2: "\<bar>x\<bar> < (2::real) ^ nat b" using hi by simp
  have p1: "power_int (2::real) (b - 1) = 2 ^ nat (b - 1)"
    using b by (simp add: power_int_def)
  have p2: "power_int (2::real) b = 2 ^ nat b"
    using b by (simp add: power_int_def)
  show ?thesis using 1 2 by (simp add: e p1 p2)
next
  case False
  define y where "y = 1 / \<bar>x\<bar>"
  define c where "c = \<lceil>y\<rceil>"
  define k where "k = bitlen (c - 1)"
  have xp: "0 < \<bar>x\<bar>" using assms by simp
  have y: "1 < y" using False xp by (simp add: y_def)
  then have c: "2 \<le> c" by (simp add: c_def)
  then have bb: "2 ^ nat (k - 1) \<le> c - 1" "c - 1 < 2 ^ nat k"
    using bitlen_bounds [of "c - 1"] by (simp_all add: k_def)
  have k: "1 \<le> k"
  proof (rule ccontr)
    assume "\<not> 1 \<le> k"
    then have "nat k = 0" by simp
    with bb(2) c show False by simp
  qed
  have e: "exponent x = - k"
    using False by (simp add: exponent_def k_def c_def y_def)
  have hi: "y \<le> real_of_int c"
    by (simp add: c_def)
  have lo: "real_of_int c - 1 < y"
    unfolding c_def by linarith
  have "c \<le> 2 ^ nat k" using bb(2) by simp
  then have "real_of_int c \<le> of_int (2 ^ nat k)" by (simp only: of_int_le_iff)
  also have "\<dots> = 2 ^ nat k" by simp
  finally have 1: "y \<le> 2 ^ nat k" using hi by linarith
  have "(2::real) ^ nat (k - 1) = of_int (2 ^ nat (k - 1))" by simp
  also have "\<dots> \<le> of_int (c - 1)" using bb(1) by (simp only: of_int_le_iff)
  finally have 2: "2 ^ nat (k - 1) < y" using lo by simp
  have x: "\<bar>x\<bar> = 1 / y" by (simp add: y_def)
  have yp: "0 < y" using y by simp
  have a: "1 / 2 ^ nat k \<le> 1 / y"
    using 1 yp by (simp add: frac_le)
  have b: "1 / y < 1 / 2 ^ nat (k - 1)"
    using 2 yp by (simp add: frac_less2)
  have p1: "power_int (2::real) (- k) = 1 / 2 ^ nat k"
    using k by (simp add: power_int_def field_simps)
  have p2: "power_int (2::real) (1 - k) = 1 / 2 ^ nat (k - 1)"
  proof (cases "k = 1")
    case True
    then show ?thesis by simp
  next
    case False
    with k have "1 - k < 0" "nat (- (1 - k)) = nat (k - 1)" by simp_all
    then show ?thesis by (simp add: power_int_def field_simps)
  qed
  show ?thesis using a b by (simp add: e p1 p2 x)
qed

lemma exponent_unique:
  assumes "power_int 2 e \<le> \<bar>x\<bar>" and "\<bar>x\<bar> < power_int 2 (e + 1)"
  shows "exponent x = e"
proof -
  have "(0::real) < power_int 2 e" by simp
  with assms(1) have nz: "x \<noteq> 0" by (smt (verit) abs_zero)
  from exponent_bounds [OF nz] have
    1: "power_int 2 (exponent x) \<le> \<bar>x\<bar>" and 2: "\<bar>x\<bar> < power_int 2 (exponent x + 1)"
    by simp_all
  have "power_int (2::real) e < power_int 2 (exponent x + 1)"
    using assms(1) 2 by linarith
  then have a: "e < exponent x + 1"
    using power_int_increasing [of "exponent x + 1" e "2::real"] by (cases "e < exponent x + 1") simp_all
  have "power_int (2::real) (exponent x) < power_int 2 (e + 1)"
    using assms(2) 1 by linarith
  then have b: "exponent x < e + 1"
    using power_int_increasing [of "e + 1" "exponent x" "2::real"] by (cases "exponent x < e + 1") simp_all
  from a b show ?thesis by linarith
qed

lemma exponent_log:
  assumes "x \<noteq> 0"
  shows "exponent x = \<lfloor>log 2 \<bar>x\<bar>\<rfloor>"
  using exponent_bounds [OF assms] floor_log2_eq [of "exponent x" x] by simp

lemma round_to_eval:
  assumes "power_int 2 e \<le> \<bar>x\<bar>" and "\<bar>x\<bar> < power_int 2 (e + 1)"
    and "emin \<le> e"
    and "round_even (x / power_int 2 (e - (int p - 1))) = m"
    and "\<bar>of_int m * power_int 2 (e - (int p - 1))\<bar> < (power_int 2 (emax + 1) :: real)"
  shows "round_to p emin emax x = Finite (of_int m * power_int 2 (e - (int p - 1)))"
proof -
  have nz: "x \<noteq> 0" using assms(1) by (smt (verit) zero_less_power_int abs_zero)
  have e: "max (exponent x) emin = e"
    using exponent_unique [OF assms(1,2)] assms(3) by simp
  show ?thesis using assms(5) by (simp add: round_to_def nz e Let_def assms(4))
qed

lemma dbl_005: "dbl 0.05 = Finite (7205759403792794 / 2 ^ 57)"
proof -
  have "dbl 0.05 = Finite (of_int 7205759403792794 * power_int 2 (- 5 - (int 53 - 1)))"
    unfolding dbl_def
    by (rule round_to_eval [where e = "- 5"]) (simp_all add: round_even_def Let_def power_int_minus)
  then show ?thesis by (simp add: power_int_minus)
qed

lemma ease_f_2_0: "ease_f (Finite 2) (Finite 0) = Finite (15938355 / 2 ^ 23)"
proof -
  have a: "isub (Finite 0) (Finite 2) = Finite (- 2)"
  proof -
    have "dbl (- 2) = Finite (of_int (- (2 ^ 52)) * power_int 2 (1 - (int 53 - 1)))"
      unfolding dbl_def
      by (rule round_to_eval [where e = 1]) (simp_all add: round_even_def Let_def power_int_minus)
    then show ?thesis by (simp add: isub_def power_int_minus)
  qed
  have b: "imul (Finite (- 2)) (Finite (7205759403792794 / 2 ^ 57)) = Finite (- 7205759403792794 / 2 ^ 56)"
  proof -
    have "dbl (- 7205759403792794 / 2 ^ 56)
            = Finite (of_int (- 7205759403792794) * power_int 2 (- 4 - (int 53 - 1)))"
      unfolding dbl_def
      by (rule round_to_eval [where e = "- 4"]) (simp_all add: round_even_def Let_def power_int_minus)
    then show ?thesis by (simp add: power_int_minus)
  qed
  have c: "iadd (Finite 2) (Finite (- 7205759403792794 / 2 ^ 56)) = Finite (8556839292003942 / 2 ^ 52)"
  proof -
    have "dbl (136909428672063078 / 2 ^ 56)
            = Finite (of_int 8556839292003942 * power_int 2 (0 - (int 53 - 1)))"
      unfolding dbl_def
      by (rule round_to_eval [where e = 0]) (simp_all add: round_even_def Let_def power_int_minus)
    moreover have "(2::real) + - 7205759403792794 / 2 ^ 56 = 136909428672063078 / 2 ^ 56"
      by simp
    ultimately show ?thesis by (simp add: power_int_minus)
  qed
  have d: "store32 (Finite (8556839292003942 / 2 ^ 52)) = Finite (15938355 / 2 ^ 23)"
  proof -
    have "fround (8556839292003942 / 2 ^ 52)
            = Finite (of_int 15938355 * power_int 2 (0 - (int 24 - 1)))"
      unfolding fround_def
      by (rule round_to_eval [where e = 0]) (simp_all add: round_even_def Let_def power_int_minus)
    then show ?thesis by (simp add: power_int_minus)
  qed
  show ?thesis
    by (simp only: ease_f_def dbl_005 a b c d)
qed

lemma ease_f_stall: "ease_f (Finite (16777215 / 2 ^ 22)) (Finite 4) = Finite (16777215 / 2 ^ 22)"
proof -
  have a: "isub (Finite 4) (Finite (16777215 / 2 ^ 22)) = Finite (1 / 2 ^ 22)"
  proof -
    have "dbl (1 / 2 ^ 22) = Finite (of_int (2 ^ 52) * power_int 2 (- 22 - (int 53 - 1)))"
      unfolding dbl_def
      by (rule round_to_eval [where e = "- 22"]) (simp_all add: round_even_def Let_def power_int_minus)
    moreover have "(4::real) + - (16777215 / 2 ^ 22) = 1 / 2 ^ 22"
      by simp
    ultimately show ?thesis by (simp add: isub_def power_int_minus)
  qed
  have b: "imul (Finite (1 / 2 ^ 22)) (Finite (7205759403792794 / 2 ^ 57))
             = Finite (7205759403792794 / 2 ^ 79)"
  proof -
    have "dbl (7205759403792794 / 2 ^ 79)
            = Finite (of_int 7205759403792794 * power_int 2 (- 27 - (int 53 - 1)))"
      unfolding dbl_def
      by (rule round_to_eval [where e = "- 27"]) (simp_all add: round_even_def Let_def power_int_minus)
    then show ?thesis by (simp add: power_int_minus)
  qed
  have c: "iadd (Finite (16777215 / 2 ^ 22)) (Finite (7205759403792794 / 2 ^ 79))
             = Finite (9007198744713626 / 2 ^ 51)"
  proof -
    have "dbl (16777215 / 2 ^ 22 + 7205759403792794 / 2 ^ 79)
            = Finite (of_int 9007198744713626 * power_int 2 (1 - (int 53 - 1)))"
      unfolding dbl_def
      by (rule round_to_eval [where e = 1]) (simp_all add: round_even_def Let_def power_int_minus)
    then show ?thesis by (simp add: power_int_minus)
  qed
  have d: "store32 (Finite (9007198744713626 / 2 ^ 51)) = Finite (16777215 / 2 ^ 22)"
  proof -
    have "fround (9007198744713626 / 2 ^ 51)
            = Finite (of_int 16777215 * power_int 2 (1 - (int 24 - 1)))"
      unfolding fround_def
      by (rule round_to_eval [where e = 1]) (simp_all add: round_even_def Let_def power_int_minus)
    then show ?thesis by (simp add: power_int_minus)
  qed
  show ?thesis
    by (simp only: ease_f_def dbl_005 a b c d)
qed

lemma rd_f_update: "rd_f (xs[j := v]) k = (if k = j \<and> j < length xs then v else rd_f xs k)"
  by (simp add: rd_f_def)

lemma rd_f_beyond: "length xs \<le> k \<Longrightarrow> rd_f xs k = QNaN"
  by (simp add: rd_f_def)

lemma ease_f_QNaN: "ease_f QNaN t = QNaN"
  by (simp add: ease_f_def)

lemma particle_body_f_plain:
  assumes "\<not> expanded_f s" and "\<not> isWaving_f s" and "\<not> truthy (attracted_f s)"
  shows "particle_body_f m tp None ap i s =
           s\<lparr>positions_f := (positions_f s)
               [i * 3 := ease_f (rd_f (positions_f s) (i * 3)) (tget_f tp (i * 3)),
                i * 3 + 1 := ease_f (rd_f (positions_f s) (i * 3 + 1)) (tget_f tp (i * 3 + 1)),
                i * 3 + 2 := ease_f (rd_f (positions_f s) (i * 3 + 2)) (tget_f tp (i * 3 + 2))]\<rparr>"
  using assms
  by (simp add: particle_body_f_def particle_repel_f_def particle_lerp_f_def
      particle_target_f_def Let_def rd_f_update ease_f_def)

lemma loop_f_plain:
  assumes "\<not> expanded_f s" and "\<not> isWaving_f s" and "\<not> truthy (attracted_f s)"
  shows "\<exists>P. fold (particle_body_f m tp None ap) [0..<n] s = s\<lparr>positions_f := P\<rparr>
           \<and> length P = length (positions_f s)
           \<and> (\<forall>k. rd_f P k = (if k < n * 3 then ease_f (rd_f (positions_f s) k) (tget_f tp k)
                               else rd_f (positions_f s) k))"
proof (induction n)
  case 0
  have "s = s\<lparr>positions_f := positions_f s\<rparr>"
    by simp
  then show ?case
    by (metis fold_simps(1) less_nat_zero_code mult_0 upt_0)
next
  case (Suc n)
  then obtain P where
    f: "fold (particle_body_f m tp None ap) [0..<n] s = s\<lparr>positions_f := P\<rparr>" and
    l: "length P = length (positions_f s)" and
    r: "\<And>k. rd_f P k = (if k < n * 3 then ease_f (rd_f (positions_f s) k) (tget_f tp k)
                          else rd_f (positions_f s) k)"
    by blast
  let ?s = "s\<lparr>positions_f := P\<rparr>"
  let ?Q = "P[n * 3 := ease_f (rd_f P (n * 3)) (tget_f tp (n * 3)),
              n * 3 + 1 := ease_f (rd_f P (n * 3 + 1)) (tget_f tp (n * 3 + 1)),
              n * 3 + 2 := ease_f (rd_f P (n * 3 + 2)) (tget_f tp (n * 3 + 2))]"
  have fl: "\<not> expanded_f ?s" "\<not> isWaving_f ?s" "\<not> truthy (attracted_f ?s)"
    using assms by simp_all
  have "fold (particle_body_f m tp None ap) [0..<Suc n] s = particle_body_f m tp None ap n ?s"
    by (simp add: f)
  also have "\<dots> = s\<lparr>positions_f := ?Q\<rparr>"
    by (simp add: particle_body_f_plain [OF fl])
  finally have 1: "fold (particle_body_f m tp None ap) [0..<Suc n] s = s\<lparr>positions_f := ?Q\<rparr>" .
  have 2: "length ?Q = length (positions_f s)"
    by (simp add: l)
  have q: "rd_f P (n * 3 + j) = rd_f (positions_f s) (n * 3 + j)" for j
    by (simp add: r)
  have e: "ease_f (rd_f (positions_f s) k) t = rd_f (positions_f s) k"
    if "length (positions_f s) \<le> k" for k t
    using that by (simp add: rd_f_beyond ease_f_QNaN)
  have 3: "rd_f ?Q k = (if k < Suc n * 3 then ease_f (rd_f (positions_f s) k) (tget_f tp k)
                        else rd_f (positions_f s) k)" for k
  proof -
    consider "k < n * 3" | "k = n * 3" | "k = n * 3 + 1" | "k = n * 3 + 2" | "Suc n * 3 \<le> k"
      by fastforce
    then show ?thesis
    proof cases
      case 1
      then show ?thesis by (simp add: rd_f_update r)
    next
      case 2
      then show ?thesis using q [of 0] e [of k] by (simp add: rd_f_update l)
    next
      case 3
      then show ?thesis using q [of 1] e [of k] by (simp add: rd_f_update l)
    next
      case 4
      then show ?thesis using q [of 2] e [of k] by (simp add: rd_f_update l)
    next
      case 5
      then show ?thesis by (simp add: rd_f_update r)
    qed
  qed
  from 1 2 3 show ?case
    by blast
qed

lemma update_f_plain:
  assumes "\<not> expanded_f s" and "\<not> truthy (attracted_f s)" and "\<not> isWaving_f s"
    and "templates_f s (currentTarget_f s) = Some target"
  shows "\<exists>s'. update_f m time None s = Inr s' \<and>
           (\<forall>k<count_f s * 3. rd_f (positions_f s') k = ease_f (rd_f (positions_f s) k) (rd_f target k))"
proof -
  let ?s1 = "s\<lparr>uTime_f := time,
               uGlow_f := iadd (uGlow_f s) (imul (isub (dbl 0) (uGlow_f s)) (dbl 0.1))\<rparr>"
  let ?ap = "\<lparr>x_f = dbl 0, y_f = dbl 0, z_f = dbl 0\<rparr>"
  have tp: "templates_at_f (templates_f s) (currentTarget_f s) = Some (Buffer_f target)"
    by (simp add: templates_at_f_def assms(4))
  have u: "update_f m time None s =
             Inr ((fold (particle_body_f m (Buffer_f target) None ?ap) [0..<count_f s] ?s1)
                    \<lparr>positionNeedsUpdate_f := True, aColorNeedsUpdate_f := True\<rparr>)"
    using assms(3) by (simp add: update_f_def Let_def tp)
  have fl: "\<not> expanded_f ?s1" "\<not> isWaving_f ?s1" "\<not> truthy (attracted_f ?s1)"
    using assms(1-3) by simp_all
  from loop_f_plain [OF fl, of m "Buffer_f target" ?ap "count_f s"] obtain P where
    f: "fold (particle_body_f m (Buffer_f target) None ?ap) [0..<count_f s] ?s1
          = ?s1\<lparr>positions_f := P\<rparr>" and
    r: "\<And>k. rd_f P k = (if k < count_f s * 3
                          then ease_f (rd_f (positions_f ?s1) k) (tget_f (Buffer_f target) k)
                          else rd_f (positions_f ?s1) k)"
    by blast
  have "rd_f (positions_f (?s1\<lparr>positions_f := P,
                                positionNeedsUpdate_f := True, aColorNeedsUpdate_f := True\<rparr>)) k
          = ease_f (rd_f (positions_f s) k) (rd_f target k)" if "k < count_f s * 3" for k
    using that by (simp add: r)
  with u f show ?thesis
    by simp
qed

text \<open>
  C7, as the code has it. With \<open>expanded\<close>, \<open>attracted\<close> and \<open>isWaving\<close> all false and no
  hand signal, a call of \<open>update\<close> returns and replaces every coordinate \<open>k\<close> of the
  position buffer by the 32-bit rounding of \<open>pos + (target - pos) * 0.05\<close> as computed
  in doubles: the difference, its product with the double nearest to 0.05, and the sum
  are each rounded to a double, and the store rounds the sum to 32 bits.
\<close>

theorem update_eases_rounded:
  assumes "\<not> expanded_f s" and "\<not> truthy (attracted_f s)" and "\<not> isWaving_f s"
    and "templates_f s (currentTarget_f s) = Some target"
    and "k < count_f s * 3"
  shows "\<exists>s'. update_f m time None s = Inr s'
         \<and> rd_f (positions_f s') k =
             store32 (iadd (rd_f (positions_f s) k)
                           (imul (isub (rd_f target k) (rd_f (positions_f s) k)) (dbl 0.05)))"
  using update_f_plain [OF assms(1-4), of m time] assms(5)
  by (auto simp add: ease_f_def)

lemma one_particle_fields:
  "count_f (one_particle c t) = 1" "expanded_f (one_particle c t) = False"
  "attracted_f (one_particle c t) = None" "isWaving_f (one_particle c t) = False"
  "currentTarget_f (one_particle c t) = ''random''"
  "positions_f (one_particle c t) = [Finite c, Finite 0, Finite 0]"
  "templates_f (one_particle c t) ''random'' = Some [Finite t, Finite 0, Finite 0]"
  by (simp_all add: one_particle_def)

theorem update_eases_rounded_witness:
  "\<not> expanded_f (one_particle 2 0) \<and> \<not> truthy (attracted_f (one_particle 2 0))
   \<and> \<not> isWaving_f (one_particle 2 0)
   \<and> templates_f (one_particle 2 0) (currentTarget_f (one_particle 2 0))
       = Some [Finite 0, Finite 0, Finite 0]
   \<and> (0::nat) < count_f (one_particle 2 0) * 3
   \<and> rd_f (positions_f (one_particle 2 0)) 0 = Finite 2
   \<and> (\<exists>s'. update_f Math (Finite 0) None (one_particle 2 0) = Inr s'
            \<and> rd_f (positions_f s') 0 = Finite (15938355 / 2 ^ 23))"
proof -
  have h: "\<not> expanded_f (one_particle 2 0)" "\<not> truthy (attracted_f (one_particle 2 0))"
    "\<not> isWaving_f (one_particle 2 0)"
    "templates_f (one_particle 2 0) (currentTarget_f (one_particle 2 0))
       = Some [Finite 0, Finite 0, Finite 0]"
    "(0::nat) < count_f (one_particle 2 0) * 3"
    by (simp_all add: one_particle_fields truthy_def)
  have v: "rd_f (positions_f (one_particle 2 0)) 0 = Finite 2"
    "rd_f [Finite 0, Finite 0, Finite 0] 0 = Finite 0"
    by (simp_all add: one_particle_fields rd_f_def)
  from update_eases_rounded [OF h, of Math "Finite 0"] obtain s' where
    "update_f Math (Finite 0) None (one_particle 2 0) = Inr s'" and
    "rd_f (positions_f s') 0 =
       store32 (iadd (rd_f (positions_f (one_particle 2 0)) 0)
                     (imul (isub (rd_f [Finite 0, Finite 0, Finite 0] 0)
                                 (rd_f (positions_f (one_particle 2 0)) 0)) (dbl 0.05)))"
    by blast
  then have "\<exists>s'. update_f Math (Finite 0) None (one_particle 2 0) = Inr s'
                \<and> rd_f (positions_f s') 0 = Finite (15938355 / 2 ^ 23)"
    using ease_f_2_0 by (simp only: v ease_f_def) blast
  with h v show ?thesis
    by blast
qed

text \<open>
  C7 as stated fails. A coordinate at 2 with target 0 goes to
  \<open>15938355 / 2 ^ 23 = 1.89999997615814208984375\<close>, not to 1.9, and its distance to
  the target is not multiplied by 0.95; a coordinate at \<open>4 - 2 ^ -22\<close> with target 4
  is stored back unchanged, so its distance is multiplied by 1.
\<close>

theorem exact_easing_counterexample:
  "\<not> expanded_f (one_particle 2 0) \<and> \<not> truthy (attracted_f (one_particle 2 0))
   \<and> \<not> isWaving_f (one_particle 2 0)
   \<and> rd_f (positions_f (one_particle 2 0)) 0 = Finite 2
   \<and> templates_f (one_particle 2 0) (currentTarget_f (one_particle 2 0))
       = Some [Finite 0, Finite 0, Finite 0]
   \<and> \<not> isl (update_f Math (Finite 0) None (one_particle 2 0))
   \<and> rd_f (positions_f (projr (update_f Math (Finite 0) None (one_particle 2 0)))) 0
       = Finite (15938355 / 2 ^ 23)
   \<and> (15938355 / 2 ^ 23 :: real) \<noteq> 2 + (0 - 2) * 0.05
   \<and> \<bar>0 - 15938355 / 2 ^ 23 :: real\<bar> \<noteq> 0.95 * \<bar>0 - 2\<bar>
   \<and> \<not> expanded_f (one_particle (16777215 / 2 ^ 22) 4)
   \<and> \<not> truthy (attracted_f (one_particle (16777215 / 2 ^ 22) 4))
   \<and> \<not> isWaving_f (one_particle (16777215 / 2 ^ 22) 4)
   \<and> rd_f (positions_f (one_particle (16777215 / 2 ^ 22) 4)) 0 = Finite (16777215 / 2 ^ 22)
   \<and> templates_f (one_particle (16777215 / 2 ^ 22) 4)
         (currentTarget_f (one_particle (16777215 / 2 ^ 22) 4))
       = Some [Finite 4, Finite 0, Finite 0]
   \<and> \<not> isl (update_f Math (Finite 0) None (one_particle (16777215 / 2 ^ 22) 4))
   \<and> rd_f (positions_f (projr (update_f Math (Finite 0) None
                                  (one_particle (16777215 / 2 ^ 22) 4)))) 0
       = Finite (16777215 / 2 ^ 22)
   \<and> \<bar>4 - 16777215 / 2 ^ 22 :: real\<bar> \<noteq> 0.95 * \<bar>4 - 16777215 / 2 ^ 22\<bar>"
proof -
  have run: "\<not> isl (update_f Math (Finite 0) None (one_particle c t))
             \<and> rd_f (positions_f (projr (update_f Math (Finite 0) None (one_particle c t)))) 0
                 = ease_f (Finite c) (Finite t)" for c t
  proof -
    have h: "\<not> expanded_f (one_particle c t)" "\<not> truthy (attracted_f (one_particle c t))"
      "\<not> isWaving_f (one_particle c t)"
      "templates_f (one_particle c t) (currentTarget_f (one_particle c t))
         = Some [Finite t, Finite 0, Finite 0]"
      by (simp_all add: one_particle_fields truthy_def)
    have v: "rd_f (positions_f (one_particle c t)) 0 = Finite c"
      "rd_f [Finite t, Finite 0, Finite 0] 0 = Finite t"
      "(0::nat) < count_f (one_particle c t) * 3"
      by (simp_all add: one_particle_fields rd_f_def)
    from update_f_plain [OF h, of Math "Finite 0"] obtain s' where
      u: "update_f Math (Finite 0) None (one_particle c t) = Inr s'" and
      r: "\<forall>k<count_f (one_particle c t) * 3.
         rd_f (positions_f s') k
           = ease_f (rd_f (positions_f (one_particle c t)) k) (rd_f [Finite t, Finite 0, Finite 0] k)"
      by blast
    from r v(3) have "rd_f (positions_f s') 0
           = ease_f (rd_f (positions_f (one_particle c t)) 0) (rd_f [Finite t, Finite 0, Finite 0] 0)"
      by blast
    then show ?thesis
      by (simp only: u v sum.sel sum.disc simp_thms)
  qed
  have fields: "\<not> expanded_f (one_particle c t)" "\<not> truthy (attracted_f (one_particle c t))"
    "\<not> isWaving_f (one_particle c t)"
    "rd_f (positions_f (one_particle c t)) 0 = Finite c"
    "templates_f (one_particle c t) (currentTarget_f (one_particle c t))
       = Some [Finite t, Finite 0, Finite 0]" for c t
    by (simp_all add: one_particle_fields truthy_def rd_f_def)
  have ne: "(15938355 / 2 ^ 23 :: real) \<noteq> 2 + (0 - 2) * 0.05"
    "\<bar>0 - 15938355 / 2 ^ 23 :: real\<bar> \<noteq> 0.95 * \<bar>0 - 2\<bar>"
    "\<bar>4 - 16777215 / 2 ^ 22 :: real\<bar> \<noteq> 0.95 * \<bar>4 - 16777215 / 2 ^ 22\<bar>"
    by simp_all
  from run [of 2 0] run [of "16777215 / 2 ^ 22" 4] fields [of 2 0]
    fields [of "16777215 / 2 ^ 22" 4] ne
  show ?thesis
    unfolding ease_f_2_0 ease_f_stall by blast
qed

end
